theory Spec2Isabelle
  imports Main "HOL-Library.Sublist"
begin

section \<open>JavaScript strings and regular expressions\<close>

text \<open>
  A JavaScript string is a sequence of UTF-16 code units. A code unit is modelled by its
  number; none of the functions below depends on the bound \<open>65536\<close>, so every statement
  about all lists of numbers covers every JavaScript string. \<open>str\<close> turns an ASCII
  literal into its code units.
\<close>

type_synonym jsstring = "nat list"

definition str :: "string \<Rightarrow> jsstring" where
  "str s = map of_char s"

text \<open>
  The character classes of ECMAScript regular expressions without the \<open>u\<close>, \<open>s\<close> and
  \<open>m\<close> flags: \<open>\s\<close> is WhiteSpace or LineTerminator, \<open>.\<close> is anything but a
  LineTerminator, \<open>\w\<close> is \<open>[A-Za-z0-9_]\<close>.
\<close>

definition isSpace :: "nat \<Rightarrow> bool" where
  "isSpace c =
     (c \<in> {9, 10, 11, 12, 13, 32, 160, 0x1680, 0x2028, 0x2029, 0x202F, 0x205F, 0x3000, 0xFEFF}
      \<or> (0x2000 \<le> c \<and> c \<le> 0x200A))"

definition isLineTerminator :: "nat \<Rightarrow> bool" where
  "isLineTerminator c = (c = 10 \<or> c = 13 \<or> c = 0x2028 \<or> c = 0x2029)"

definition isWordChar :: "nat \<Rightarrow> bool" where
  "isWordChar c =
     ((97 \<le> c \<and> c \<le> 122) \<or> (65 \<le> c \<and> c \<le> 90) \<or> (48 \<le> c \<and> c \<le> 57) \<or> c = 95)"

text \<open>
  Canonicalize of the \<open>i\<close> flag (non-Unicode mode) is \<open>toUpperCase\<close> on one code unit,
  except that a unit from 128 on never canonicalizes to a unit below 128. Every pattern
  character of this program is ASCII, so only the ASCII part of the mapping decides a
  comparison; the units from 128 on are left as they are.
\<close>

definition canonicalize :: "nat \<Rightarrow> nat" where
  "canonicalize c = (if 97 \<le> c \<and> c \<le> 122 then c - 32 else c)"

text \<open>
  The fragment of the pattern language that rule-manager.js uses: single characters,
  \<open>\s\<close>, \<open>.\<close>, the greedy quantifiers \<open>*\<close> and \<open>+\<close> on one of these, the assertions
  \<open>^\<close>, \<open>$\<close> and \<open>\b\<close>, and a two-way alternative. A pattern is the list of its terms.
\<close>

datatype atom = Chr nat | Space | Dot

datatype node = One atom | Star atom | Plus atom | Bol | Eol | WordB | Alt node node

fun atom_ok :: "bool \<Rightarrow> atom \<Rightarrow> nat \<Rightarrow> bool" where
  "atom_ok ic (Chr p) c = (if ic then canonicalize p = canonicalize c else p = c)"
| "atom_ok ic Space c = isSpace c"
| "atom_ok ic Dot c = (\<not> isLineTerminator c)"

definition isWordAt :: "nat option \<Rightarrow> bool" where
  "isWordAt x = (case x of None \<Rightarrow> False | Some c \<Rightarrow> isWordChar c)"

definition next_unit :: "jsstring \<Rightarrow> nat option" where
  "next_unit rest = (case rest of [] \<Rightarrow> None | c # cs \<Rightarrow> Some c)"

text \<open>
  The backtracking matcher. \<open>match ic re prev rest\<close> runs the pattern \<open>re\<close> at the
  position whose preceding code unit is \<open>prev\<close> (\<open>None\<close> at the start of the input) and
  whose remaining input is \<open>rest\<close>; \<open>ic\<close> is the \<open>i\<close> flag. The result is the input left
  after the first successful match in backtracking order (a quantifier takes as many
  units as it can and gives them back one at a time), or \<open>None\<close>.
\<close>

function (sequential) match :: "bool \<Rightarrow> node list \<Rightarrow> nat option \<Rightarrow> jsstring \<Rightarrow> jsstring option" where
  "match ic [] prev rest = Some rest"
| "match ic (One a # r) prev [] = None"
| "match ic (One a # r) prev (c # cs) = (if atom_ok ic a c then match ic r (Some c) cs else None)"
| "match ic (Star a # r) prev [] = match ic r prev []"
| "match ic (Star a # r) prev (c # cs) =
     (if atom_ok ic a c
      then (case match ic (Star a # r) (Some c) cs of
              Some e \<Rightarrow> Some e
            | None \<Rightarrow> match ic r prev (c # cs))
      else match ic r prev (c # cs))"
| "match ic (Plus a # r) prev [] = None"
| "match ic (Plus a # r) prev (c # cs) =
     (if atom_ok ic a c then match ic (Star a # r) (Some c) cs else None)"
| "match ic (Bol # r) prev rest = (if prev = None then match ic r prev rest else None)"
| "match ic (Eol # r) prev rest = (if rest = [] then match ic r prev rest else None)"
| "match ic (WordB # r) prev rest =
     (if isWordAt prev \<noteq> isWordAt (next_unit rest) then match ic r prev rest else None)"
| "match ic (Alt a b # r) prev rest =
     (case match ic (a # r) prev rest of
        Some e \<Rightarrow> Some e
      | None \<Rightarrow> match ic (b # r) prev rest)"
  by pat_completeness auto
termination
  by (relation "measures [\<lambda>(ic, ns, prev, rest). length rest,
                          \<lambda>(ic, ns, prev, rest). size_list size ns]") auto

text \<open>
  \<open>RegExp.prototype.test\<close> without the \<open>g\<close> flag tries every start position from the
  left; \<open>String.prototype.replace\<close> with the empty replacement removes the first match
  and keeps the rest, and returns the string unchanged when nothing matches.
\<close>

fun exec :: "bool \<Rightarrow> node list \<Rightarrow> nat option \<Rightarrow> jsstring \<Rightarrow> bool" where
  "exec ic re prev [] = (match ic re prev [] \<noteq> None)"
| "exec ic re prev (c # cs) =
     (if match ic re prev (c # cs) \<noteq> None then True else exec ic re (Some c) cs)"

fun replace_from :: "bool \<Rightarrow> node list \<Rightarrow> nat option \<Rightarrow> jsstring \<Rightarrow> jsstring" where
  "replace_from ic re prev [] = (case match ic re prev [] of Some e \<Rightarrow> e | None \<Rightarrow> [])"
| "replace_from ic re prev (c # cs) =
     (case match ic re prev (c # cs) of
        Some e \<Rightarrow> e
      | None \<Rightarrow> c # replace_from ic re (Some c) cs)"

definition test :: "bool \<Rightarrow> node list \<Rightarrow> jsstring \<Rightarrow> bool" where
  "test ic re s = exec ic re None s"

definition replace_empty :: "bool \<Rightarrow> node list \<Rightarrow> jsstring \<Rightarrow> jsstring" where
  "replace_empty ic re s = replace_from ic re None s"

definition lit :: "string \<Rightarrow> node list" where
  "lit s = map (\<lambda>c. One (Chr (of_char c))) s"

text \<open>
  A value that may be \<open>undefined\<close> is an option. \<open>test\<close> converts its argument to a
  string first, and \<open>undefined\<close> converts to the string \<open>undefined\<close>.
\<close>

definition ToString :: "jsstring option \<Rightarrow> jsstring" where
  "ToString v = (case v of None \<Rightarrow> str ''undefined'' | Some s \<Rightarrow> s)"

section \<open>rule-manager.js\<close>

subsection \<open>The allow-list\<close>

definition SAFE_TOOLS :: "jsstring list" where
  "SAFE_TOOLS = map str
     [''Read'', ''Grep'', ''Glob'', ''LS'', ''WebFetch'', ''WebSearch'',
      ''ListMcpResourcesTool'', ''ReadMcpResourceTool'', ''TodoRead'']"

subsection \<open>Paths\<close>

text \<open>
  \<open>path.join\<close> of the POSIX flavour of Node's \<open>path\<close> module: the arguments that are
  not empty are joined with the separator \<open>/\<close> (code unit 47) and the result is
  normalised. \<open>normalizeString\<close> walks the segments between separators with the
  result so far (here the list of its segments, the last one first): an empty segment
  and \<open>.\<close> are dropped, \<open>..\<close> removes the last segment unless there is none or it is
  \<open>..\<close> itself, and is kept then only in a relative path.
\<close>

fun split_sep :: "jsstring \<Rightarrow> jsstring list" where
  "split_sep [] = [[]]"
| "split_sep (c # cs) =
     (if c = 47 then [] # split_sep cs
      else (case split_sep cs of [] \<Rightarrow> [[c]] | s # ss \<Rightarrow> (c # s) # ss))"

fun join_sep :: "jsstring list \<Rightarrow> jsstring" where
  "join_sep [] = []"
| "join_sep [s] = s"
| "join_sep (s # t # ts) = s @ [47] @ join_sep (t # ts)"

definition step :: "bool \<Rightarrow> jsstring list \<Rightarrow> jsstring \<Rightarrow> jsstring list" where
  "step allowAboveRoot res seg =
     (if seg = [] \<or> seg = str ''.'' then res
      else if seg = str ''..'' then
        (case res of
           [] \<Rightarrow> if allowAboveRoot then [seg] else []
         | lastSegment # below \<Rightarrow>
             if lastSegment \<noteq> str ''..'' then below
             else if allowAboveRoot then seg # res else res)
      else seg # res)"

definition normalizeString :: "jsstring \<Rightarrow> bool \<Rightarrow> jsstring" where
  "normalizeString path allowAboveRoot =
     join_sep (rev (foldl (step allowAboveRoot) [] (split_sep path)))"

definition normalize :: "jsstring \<Rightarrow> jsstring" where
  "normalize path =
     (if path = [] then str ''.''
      else
        (let isAbsolute = (hd path = 47);
             trailingSeparator = (last path = 47);
             res = normalizeString path (\<not> isAbsolute)
         in if res = [] then
              (if isAbsolute then str ''/'' else if trailingSeparator then str ''./'' else str ''.'')
            else (if isAbsolute then [47] else []) @ res @ (if trailingSeparator then [47] else [])))"

definition path_join :: "jsstring list \<Rightarrow> jsstring" where
  "path_join args =
     (let joined = join_sep (filter (\<lambda>arg. arg \<noteq> []) args)
      in if joined = [] then str ''.'' else normalize joined)"

text \<open>\<open>home\<close> is the value of \<open>os.homedir()\<close>.\<close>

definition getStateDir :: "jsstring \<Rightarrow> jsstring" where
  "getStateDir home = path_join [home, str ''.claude'', str ''hook-state'']"

definition getQuestionPath :: "jsstring \<Rightarrow> jsstring \<Rightarrow> jsstring" where
  "getQuestionPath home session_id = path_join [getStateDir home, session_id @ str ''.question.txt'']"

definition getCommitPath :: "jsstring \<Rightarrow> jsstring \<Rightarrow> jsstring" where
  "getCommitPath home session_id = path_join [getStateDir home, session_id @ str ''.commit.txt'']"

definition getLogPath :: "jsstring \<Rightarrow> jsstring \<Rightarrow> jsstring" where
  "getLogPath home session_id = path_join [getStateDir home, session_id @ str ''.jsonl'']"

subsection \<open>The file system\<close>

text \<open>
  Node hands a path and the text of a file to the operating system as UTF-8. A surrogate
  pair is one character; a surrogate code unit without its partner is replaced by U+FFFD.
  \<open>utf8_text s\<close> is the string that the UTF-8 bytes of \<open>s\<close> stand for.
\<close>

definition isHighSurrogate :: "nat \<Rightarrow> bool" where
  "isHighSurrogate c = (0xD800 \<le> c \<and> c \<le> 0xDBFF)"

definition isLowSurrogate :: "nat \<Rightarrow> bool" where
  "isLowSurrogate c = (0xDC00 \<le> c \<and> c \<le> 0xDFFF)"

fun utf8_text :: "jsstring \<Rightarrow> jsstring" where
  "utf8_text [] = []"
| "utf8_text [c] = (if isHighSurrogate c \<or> isLowSurrogate c then [0xFFFD] else [c])"
| "utf8_text (c # d # cs) =
     (if isHighSurrogate c then
        (if isLowSurrogate d then c # d # utf8_text cs else 0xFFFD # utf8_text (d # cs))
      else if isLowSurrogate c then 0xFFFD # utf8_text (d # cs)
      else c # utf8_text (d # cs))"

text \<open>
  The file system is a map from the name of a file, as the operating system receives it,
  to the text of the file. Names are told apart by their bytes. Directories are not part
  of the map: whether a file can be created or written at a name (its directory exists,
  the name is legal, the process may write there) is decided by the machine, and the model
  takes it as the parameter \<open>writeError\<close>, which gives the message of the error for a
  name where writing fails and \<open>None\<close> where it succeeds. A write that fails leaves the
  files as they are. \<open>unlink\<close> fails when the file is absent.
\<close>

type_synonym fs = "jsstring \<rightharpoonup> jsstring"

type_synonym write_oracle = "jsstring \<Rightarrow> jsstring option"

text \<open>
  \<open>writeLog\<close> appends one line to the session's log when logging is enabled, and
  swallows a failure. The line is the JSON text of a timestamped entry; the model keeps
  the entry's event label only.
\<close>

definition writeLog :: "bool \<Rightarrow> jsstring \<Rightarrow> write_oracle \<Rightarrow> jsstring \<Rightarrow> string \<Rightarrow> fs \<Rightarrow> fs" where
  "writeLog enableLogging home writeError session_id entry files =
     (if \<not> enableLogging then files
      else
        (case writeError (utf8_text (getLogPath home session_id)) of
           Some message \<Rightarrow> files
         | None \<Rightarrow>
             files(utf8_text (getLogPath home session_id) \<mapsto>
               (case files (utf8_text (getLogPath home session_id)) of None \<Rightarrow> [] | Some old \<Rightarrow> old)
                 @ str entry @ [10])))"

definition fileExists :: "fs \<Rightarrow> jsstring \<Rightarrow> bool" where
  "fileExists files filePath = (files (utf8_text filePath) \<noteq> None)"

text \<open>
  \<open>createMarkerFile\<close>: \<open>ensureStateDir\<close> and \<open>fs.writeFile\<close>. The result is \<open>Inl\<close> with
  the message when either rejects.
\<close>

definition createMarkerFile :: "write_oracle \<Rightarrow> jsstring \<Rightarrow> jsstring \<Rightarrow> fs \<Rightarrow> jsstring + fs" where
  "createMarkerFile writeError filePath content files =
     (case writeError (utf8_text filePath) of
        Some message \<Rightarrow> Inl message
      | None \<Rightarrow> Inr (files(utf8_text filePath \<mapsto> utf8_text content)))"

datatype fs_error = ENOENT

definition unlink :: "jsstring \<Rightarrow> fs \<Rightarrow> fs_error + fs" where
  "unlink filePath files =
     (case files (utf8_text filePath) of
        None \<Rightarrow> Inl ENOENT
      | Some content \<Rightarrow> Inr (files(utf8_text filePath := None)))"

definition deleteMarkerFile :: "jsstring \<Rightarrow> fs \<Rightarrow> fs" where
  "deleteMarkerFile filePath files =
     (case unlink filePath files of Inl err \<Rightarrow> files | Inr files' \<Rightarrow> files')"

definition cleanupSession :: "jsstring \<Rightarrow> jsstring \<Rightarrow> fs \<Rightarrow> fs" where
  "cleanupSession home session_id files =
     deleteMarkerFile (getCommitPath home session_id)
       (deleteMarkerFile (getQuestionPath home session_id) files)"

subsection \<open>The prompt and command recognizers\<close>

definition question_re :: "node list" where
  "question_re = Bol # lit ''Q:'' @ [One Space]"

definition question_strip_re :: "node list" where
  "question_strip_re = Bol # lit ''Q:'' @ [Star Space]"

definition commit_re :: "node list" where
  "commit_re = Bol # lit ''commit!'' @ [Alt (One Space) Eol]"

definition commit_strip_re :: "node list" where
  "commit_strip_re = Bol # lit ''commit!'' @ [Star Space]"

definition isQuestionPrefix :: "jsstring option \<Rightarrow> bool" where
  "isQuestionPrefix prompt = test False question_re (ToString prompt)"

definition isCommitPrefix :: "jsstring option \<Rightarrow> bool" where
  "isCommitPrefix prompt = test True commit_re (ToString prompt)"

definition gitCommitPatterns :: "node list list" where
  "gitCommitPatterns =
     [WordB # lit ''git'' @ [Plus Space] @ lit ''commit'' @ [WordB],
      WordB # lit ''git'' @ [Plus Space, Star Dot, Plus Space] @ lit ''commit'' @ [WordB]]"

definition isGitCommit :: "jsstring \<Rightarrow> bool" where
  "isGitCommit command = list_ex (\<lambda>pattern. test False pattern command) gitCommitPatterns"

subsection \<open>The hook handler\<close>

text \<open>
  The event read from standard input. Reading and parsing either throws (the text is not
  JSON, or it is the JSON value \<open>null\<close>, whose fields cannot be read), with the message of
  the exception, or gives an object whose fields are present or \<open>undefined\<close>. The fields
  have the types of the hook interface: strings, and an object with a \<open>command\<close>.
\<close>

record toolParams =
  command :: "jsstring option"

record hookData =
  session_id :: "jsstring option"
  hook_event_name :: "jsstring option"
  prompt :: "jsstring option"
  tool_name :: "jsstring option"
  tool :: "jsstring option"
  tool_input :: "toolParams option"
  params :: "toolParams option"
  parameters :: "toolParams option"

datatype stdin = Throws jsstring | Parsed hookData

text \<open>
  What one run of the process leaves behind: the files, what it wrote to which channel
  (in order), and its exit code. \<open>EmptyObject\<close> is the text \<open>{}\<close>, \<open>AdditionalContext\<close>
  the object with \<open>hookSpecificOutput.additionalContext\<close>, \<open>ErrorBody\<close> the object with
  the one field \<open>error\<close>.
\<close>

datatype channel = Stdout | Stderr

datatype response = EmptyObject | AdditionalContext jsstring | ErrorBody jsstring

record outcome =
  files :: fs
  emitted :: "(channel \<times> response) list"
  exit_code :: nat

text \<open>\<open>a || b\<close> on strings (the empty string and \<open>undefined\<close> are falsy) and on objects.\<close>

definition or_string :: "jsstring option \<Rightarrow> jsstring option \<Rightarrow> jsstring option" where
  "or_string a b = (case a of Some (c # cs) \<Rightarrow> a | _ \<Rightarrow> b)"

definition or_object :: "'a option \<Rightarrow> 'a option \<Rightarrow> 'a option" where
  "or_object a b = (case a of Some x \<Rightarrow> a | None \<Rightarrow> b)"

definition sessionOf :: "hookData \<Rightarrow> jsstring" where
  "sessionOf hookData = (case session_id hookData of Some (c # cs) \<Rightarrow> c # cs | _ \<Rightarrow> str ''unknown'')"

definition toolNameOf :: "hookData \<Rightarrow> jsstring option" where
  "toolNameOf hookData = or_string (tool_name hookData) (tool hookData)"

definition toolParamsOf :: "hookData \<Rightarrow> toolParams option" where
  "toolParamsOf hookData =
     or_object (tool_input hookData) (or_object (params hookData) (parameters hookData))"

text \<open>\<open>toolParams?.command\<close>\<close>

definition commandOf :: "hookData \<Rightarrow> jsstring option" where
  "commandOf hookData = (case toolParamsOf hookData of None \<Rightarrow> None | Some ps \<Rightarrow> command ps)"

definition question_context :: jsstring where
  "question_context = str ''USER ASKED A QUESTION: You must answer it before doing anything else. DO NOT use tools. DO NOT perform actions. ONLY provide the answer.''"

definition join_comma :: "jsstring list \<Rightarrow> jsstring" where
  "join_comma xs = (case xs of [] \<Rightarrow> [] | y # ys \<Rightarrow> y @ concat (map (\<lambda>z. str '', '' @ z) ys))"

definition question_block_message :: jsstring where
  "question_block_message =
     str ''THE USER ASKED A QUESTION. You must answer the question before performing any actions. You may use these tools to help answer: ''
       @ join_comma SAFE_TOOLS @ str ''.''"

definition commit_block_message :: jsstring where
  "commit_block_message =
     str ''Committing without user'' @ [39]
       @ str ''s review and approval is OFFENSIVE, RUDE, and INAPPROPRIATE.''"

text \<open>The \<open>catch\<close> block of \<open>handleHook\<close>.\<close>

definition catchBlock ::
  "bool \<Rightarrow> jsstring \<Rightarrow> write_oracle \<Rightarrow> jsstring \<Rightarrow> jsstring \<Rightarrow> fs \<Rightarrow> outcome" where
  "catchBlock enableLogging home writeError sid message fs0 =
     \<lparr>files = writeLog enableLogging home writeError sid ''error'' fs0,
      emitted = [(Stdout, ErrorBody (str ''Hook handler error: '' @ message))],
      exit_code = 1\<rparr>"

text \<open>
  The \<open>UserPromptSubmit\<close> case. Two calls can throw: \<open>prompt.replace\<close> throws a
  TypeError when \<open>prompt\<close> is \<open>undefined\<close>, and \<open>createMarkerFile\<close> rejects when the
  marker file cannot be written. The result is then \<open>Inl\<close> with the message and the
  files at that point, and the rest of the case is skipped.
\<close>

definition replace_undefined_message :: jsstring where
  "replace_undefined_message =
     str ''Cannot read properties of undefined (reading ''
       @ [39] @ str ''replace'' @ [39] @ str '')''"

definition questionBranch ::
  "bool \<Rightarrow> jsstring \<Rightarrow> write_oracle \<Rightarrow> jsstring \<Rightarrow> jsstring option \<Rightarrow> fs
     \<Rightarrow> (jsstring \<times> fs) + (bool \<times> fs)" where
  "questionBranch enableLogging home writeError sid userPrompt fs0 =
     (if isQuestionPrefix userPrompt then
        (case userPrompt of
           None \<Rightarrow> Inl (replace_undefined_message, fs0)
         | Some p \<Rightarrow>
             (let actualPrompt = replace_empty False question_strip_re p
              in case createMarkerFile writeError (getQuestionPath home sid) actualPrompt fs0 of
                   Inl message \<Rightarrow> Inl (message, fs0)
                 | Inr fs1 \<Rightarrow>
                     Inr (True, writeLog enableLogging home writeError sid ''question_detected'' fs1)))
      else Inr (False, fs0))"

definition commitBranch ::
  "bool \<Rightarrow> jsstring \<Rightarrow> write_oracle \<Rightarrow> jsstring \<Rightarrow> jsstring option \<Rightarrow> fs
     \<Rightarrow> (jsstring \<times> fs) + (bool \<times> fs)" where
  "commitBranch enableLogging home writeError sid userPrompt fs0 =
     (if isCommitPrefix userPrompt then
        (case userPrompt of
           None \<Rightarrow> Inl (replace_undefined_message, fs0)
         | Some p \<Rightarrow>
             (let actualPrompt = replace_empty True commit_strip_re p
              in case createMarkerFile writeError (getCommitPath home sid) actualPrompt fs0 of
                   Inl message \<Rightarrow> Inl (message, fs0)
                 | Inr fs1 \<Rightarrow>
                     Inr (True, writeLog enableLogging home writeError sid ''commit_allowed'' fs1)))
      else Inr (False, fs0))"

definition userPromptSubmit ::
  "bool \<Rightarrow> jsstring \<Rightarrow> write_oracle \<Rightarrow> jsstring \<Rightarrow> hookData \<Rightarrow> fs \<Rightarrow> (jsstring \<times> fs) + outcome" where
  "userPromptSubmit enableLogging home writeError sid hookData fs0 =
     (case questionBranch enableLogging home writeError sid (prompt hookData) fs0 of
        Inl thrown \<Rightarrow> Inl thrown
      | Inr (hasQuestion, fs1) \<Rightarrow>
          (case commitBranch enableLogging home writeError sid (prompt hookData) fs1 of
             Inl thrown \<Rightarrow> Inl thrown
           | Inr (allowCommit, fs2) \<Rightarrow>
               Inr \<lparr>files = writeLog enableLogging home writeError sid ''response'' fs2,
                    emitted = [(Stdout, if hasQuestion then AdditionalContext question_context
                                        else EmptyObject)],
                    exit_code = 0\<rparr>))"

text \<open>
  The \<open>PreToolUse\<close> case. \<open>process.exit(2)\<close> ends the run at once, so each blocking
  branch is a final outcome. The commit gate is entered when the tool is \<open>Bash\<close> and
  \<open>toolParams?.command\<close> is truthy, that is a string that is not empty.
\<close>

definition preToolUse ::
  "bool \<Rightarrow> jsstring \<Rightarrow> write_oracle \<Rightarrow> jsstring \<Rightarrow> hookData \<Rightarrow> fs \<Rightarrow> outcome" where
  "preToolUse enableLogging home writeError sid hookData fs0 =
     (let toolName = toolNameOf hookData;
          hasQuestion = fileExists fs0 (getQuestionPath home sid);
          fs1 = writeLog enableLogging home writeError sid ''pretooluse_check'' fs0
      in
      if hasQuestion \<and> \<not> (case toolName of None \<Rightarrow> False | Some t \<Rightarrow> t \<in> set SAFE_TOOLS) then
        \<lparr>files = writeLog enableLogging home writeError sid ''blocking_tool'' fs1,
         emitted = [(Stderr, ErrorBody question_block_message)],
         exit_code = 2\<rparr>
      else
        (case (if toolName = Some (str ''Bash'') then commandOf hookData else None) of
           Some (c # cs) \<Rightarrow>
             if isGitCommit (c # cs) then
               (if \<not> fileExists fs1 (getCommitPath home sid) then
                  \<lparr>files = writeLog enableLogging home writeError sid ''blocking_git_commit'' fs1,
                   emitted = [(Stderr, ErrorBody commit_block_message)],
                   exit_code = 2\<rparr>
                else
                  \<lparr>files = writeLog enableLogging home writeError sid ''allowing_tool''
                             (writeLog enableLogging home writeError sid ''allowing_git_commit'' fs1),
                   emitted = [(Stdout, EmptyObject)],
                   exit_code = 0\<rparr>)
             else
               \<lparr>files = writeLog enableLogging home writeError sid ''allowing_tool'' fs1,
                emitted = [(Stdout, EmptyObject)],
                exit_code = 0\<rparr>
         | _ \<Rightarrow>
             \<lparr>files = writeLog enableLogging home writeError sid ''allowing_tool'' fs1,
              emitted = [(Stdout, EmptyObject)],
              exit_code = 0\<rparr>))"

text \<open>
  \<open>handleHook\<close>: one run of the process on one event. A run that ends without
  \<open>process.exit\<close> has exit code 0. The \<open>catch\<close> block calls only \<open>writeLog\<close>, which
  swallows its own failures, \<open>console.log\<close> and \<open>process.exit\<close>, so the promise of
  \<open>handleHook\<close> is never rejected and the handler attached to it at the end of the file
  (\<open>Fatal error\<close>, written with \<open>console.error\<close>) is not reached.
\<close>

definition handleHook :: "bool \<Rightarrow> jsstring \<Rightarrow> write_oracle \<Rightarrow> stdin \<Rightarrow> fs \<Rightarrow> outcome" where
  "handleHook enableLogging home writeError input fs0 =
     (case input of
        Throws message \<Rightarrow> catchBlock enableLogging home writeError (str ''unknown'') message fs0
      | Parsed hookData \<Rightarrow>
          (let sid = sessionOf hookData;
               fs1 = writeLog enableLogging home writeError sid ''hook_received'' fs0
           in
           if hook_event_name hookData = Some (str ''UserPromptSubmit'') then
             (case userPromptSubmit enableLogging home writeError sid hookData fs1 of
                Inl (message, fs2) \<Rightarrow> catchBlock enableLogging home writeError sid message fs2
              | Inr result \<Rightarrow> result)
           else if hook_event_name hookData = Some (str ''PreToolUse'') then
             preToolUse enableLogging home writeError sid hookData fs1
           else if hook_event_name hookData = Some (str ''Stop'')
                   \<or> hook_event_name hookData = Some (str ''SessionStart'') then
             \<lparr>files = cleanupSession home sid
                        (writeLog enableLogging home writeError sid ''session_cleanup'' fs1),
              emitted = [(Stdout, EmptyObject)],
              exit_code = 0\<rparr>
           else
             \<lparr>files = writeLog enableLogging home writeError sid ''passthrough'' fs1,
              emitted = [(Stdout, EmptyObject)],
              exit_code = 0\<rparr>))"

text \<open>
  The two flags of a session, as the handler reads them: the text of the session's marker
  file, or \<open>None\<close> when there is no such file. A sequence of events is a sequence of
  runs on one machine, each starting from the files the previous one left.
\<close>

definition questionFlag :: "jsstring \<Rightarrow> fs \<Rightarrow> jsstring \<Rightarrow> jsstring option" where
  "questionFlag home fs0 sid = fs0 (utf8_text (getQuestionPath home sid))"

definition commitFlag :: "jsstring \<Rightarrow> fs \<Rightarrow> jsstring \<Rightarrow> jsstring option" where
  "commitFlag home fs0 sid = fs0 (utf8_text (getCommitPath home sid))"

fun runAll :: "bool \<Rightarrow> jsstring \<Rightarrow> write_oracle \<Rightarrow> stdin list \<Rightarrow> fs \<Rightarrow> fs" where
  "runAll enableLogging home writeError [] fs0 = fs0"
| "runAll enableLogging home writeError (input # inputs) fs0 =
     runAll enableLogging home writeError inputs
       (files (handleHook enableLogging home writeError input fs0))"

text \<open>
  A session boundary for a session: a \<open>Stop\<close> or \<open>SessionStart\<close> event whose session id
  names the commit marker file of that session. That is the session's own id, or one
  that \<open>path.join\<close> and the encoding of the file name take to the same file.
\<close>

definition sessionBoundary :: "jsstring \<Rightarrow> jsstring \<Rightarrow> stdin \<Rightarrow> bool" where
  "sessionBoundary home sid input =
     (case input of
        Throws message \<Rightarrow> False
      | Parsed hookData \<Rightarrow>
          utf8_text (getCommitPath home (sessionOf hookData)) = utf8_text (getCommitPath home sid)
          \<and> (hook_event_name hookData = Some (str ''Stop'')
               \<or> hook_event_name hookData = Some (str ''SessionStart'')))"

text \<open>A string without a lone surrogate is stored as it is.\<close>

definition isWellFormed :: "jsstring \<Rightarrow> bool" where
  "isWellFormed s = (utf8_text s = s)"

text \<open>The code unit before the position reached after reading \<open>xs\<close>.\<close>

definition after :: "nat option \<Rightarrow> jsstring \<Rightarrow> nat option" where
  "after prev xs = (if xs = [] then prev else Some (last xs))"

subsection \<open>Example events and machines\<close>

definition example_home :: jsstring where
  "example_home = str ''/home/u''"

text \<open>
  A machine where every write succeeds, and one where the state directory has no
  subdirectory: a file can be written exactly when it lies directly in the state
  directory.
\<close>

definition everyWriteSucceeds :: write_oracle where
  "everyWriteSucceeds name = None"

definition onlyStateDirExists :: "jsstring \<Rightarrow> write_oracle" where
  "onlyStateDirExists home name =
     (let dir = utf8_text (getStateDir home) @ [47]
      in if take (length dir) name = dir \<and> 47 \<notin> set (drop (length dir) name) then None
         else Some (str ''ENOENT: no such file or directory''))"

definition toolEvent :: "string \<Rightarrow> string \<Rightarrow> string \<Rightarrow> hookData" where
  "toolEvent sid name cmd =
     \<lparr>session_id = Some (str sid), hook_event_name = Some (str ''PreToolUse''), prompt = None,
      tool_name = Some (str name), tool = None,
      tool_input = Some \<lparr>command = Some (str cmd)\<rparr>, params = None, parameters = None\<rparr>"

definition promptEvent :: "string \<Rightarrow> string \<Rightarrow> hookData" where
  "promptEvent sid text =
     \<lparr>session_id = Some (str sid), hook_event_name = Some (str ''UserPromptSubmit''),
      prompt = Some (str text), tool_name = None, tool = None,
      tool_input = None, params = None, parameters = None\<rparr>"

definition lifecycleEvent :: "string \<Rightarrow> string \<Rightarrow> hookData" where
  "lifecycleEvent sid name =
     \<lparr>session_id = Some (str sid), hook_event_name = Some (str name), prompt = None,
      tool_name = None, tool = None, tool_input = None, params = None, parameters = None\<rparr>"

definition promptEventUnits :: "string \<Rightarrow> jsstring \<Rightarrow> hookData" where
  "promptEventUnits sid units =
     \<lparr>session_id = Some (str sid), hook_event_name = Some (str ''UserPromptSubmit''),
      prompt = Some units, tool_name = None, tool = None,
      tool_input = None, params = None, parameters = None\<rparr>"

section \<open>Properties of the state directory\<close>

text \<open>
  Splitting a path at the separators never gives the empty list, and text without
  separator that is appended to a path is appended to its last segment.
\<close>

lemma split_sep_nonempty [simp]: "split_sep p \<noteq> []"
  by (induction p) (auto split: list.splits)

lemma split_sep_append:
  "47 \<notin> set sfx \<Longrightarrow> split_sep (x @ sfx) = butlast (split_sep x) @ [last (split_sep x) @ sfx]"
proof (induction x)
  case Nil
  then show ?case by (induction sfx) (auto split: list.splits)
next
  case (Cons c x)
  then show ?case by (auto split: list.splits)
qed

lemma join_sep_snoc: "join_sep (ys @ [z]) = (if ys = [] then z else join_sep ys @ [47] @ z)"
  by (induction ys rule: join_sep.induct) auto

text \<open>
  Normalisation keeps the end of the last segment: a path that ends with a file-name
  suffix of three or more code units without separator is normalised to a path that ends
  with the same suffix.
\<close>

lemma normalize_suffix:
  assumes "47 \<notin> set sfx" and "3 \<le> length sfx"
  shows "suffix sfx (normalize (x @ sfx))"
proof -
  define l where "l = last (split_sep x) @ sfx"
  define st where "st = foldl (step (hd (x @ sfx) \<noteq> 47)) [] (butlast (split_sep x))"
  from assms(2) have len: "3 \<le> length l" by (simp add: l_def)
  then have normal: "l \<noteq> [] \<and> l \<noteq> str ''.'' \<and> l \<noteq> str ''..''"
    by (auto simp add: str_def)
  from assms(2) have ne: "sfx \<noteq> []" by auto
  have nt: "last (x @ sfx) \<noteq> 47"
  proof
    assume "last (x @ sfx) = 47"
    with ne have "last sfx = 47" by simp
    with last_in_set [OF ne] have "47 \<in> set sfx" by simp
    with assms(1) show False by simp
  qed
  have "foldl (step (hd (x @ sfx) \<noteq> 47)) [] (split_sep (x @ sfx)) = l # st"
    using normal by (simp add: split_sep_append [OF assms(1)] l_def [symmetric] st_def step_def)
  then have r: "normalizeString (x @ sfx) (hd (x @ sfx) \<noteq> 47)
      = (if st = [] then l else join_sep (rev st) @ [47] @ l)"
    by (simp add: normalizeString_def join_sep_snoc)
  then have "suffix sfx (normalizeString (x @ sfx) (hd (x @ sfx) \<noteq> 47))"
    by (auto simp add: l_def suffix_def)
  moreover from r normal have "normalizeString (x @ sfx) (hd (x @ sfx) \<noteq> 47) \<noteq> []" by auto
  ultimately show ?thesis using ne nt
    by (auto simp add: normalize_def Let_def suffix_def)
qed

lemma path_join_suffix:
  assumes "47 \<notin> set sfx" and "3 \<le> length sfx"
  shows "suffix sfx (path_join [d, n @ sfx])"
proof -
  from assms(2) have ne: "sfx \<noteq> []" by auto
  show ?thesis
  proof (cases "d = []")
    case True
    with ne normalize_suffix [OF assms, of n] show ?thesis by (simp add: path_join_def)
  next
    case False
    with ne normalize_suffix [OF assms, of "d @ [47] @ n"] show ?thesis by (simp add: path_join_def)
  qed
qed

lemma utf8_text_append:
  "ys = [] \<or> \<not> isLowSurrogate (hd ys) \<Longrightarrow> utf8_text (xs @ ys) = utf8_text xs @ utf8_text ys"
proof (induction xs rule: utf8_text.induct)
  case 1
  then show ?case by simp
next
  case (2 c)
  then show ?case by (cases ys) auto
next
  case (3 c d cs)
  then show ?case by auto
qed

lemma file_name_suffix:
  assumes "suffix sfx p" and "utf8_text sfx = sfx" and "sfx = [] \<or> \<not> isLowSurrogate (hd sfx)"
  shows "suffix sfx (utf8_text p)"
proof -
  from assms(1) obtain pre where "p = pre @ sfx" by (auto simp add: suffix_def)
  with assms(2,3) show ?thesis by (simp add: utf8_text_append suffix_def)
qed

lemma question_name_suffix: "suffix (str ''.question.txt'') (utf8_text (getQuestionPath home s))"
  unfolding getQuestionPath_def
  by (rule file_name_suffix, rule path_join_suffix)
    (simp_all add: str_def isHighSurrogate_def isLowSurrogate_def)

lemma commit_name_suffix: "suffix (str ''.commit.txt'') (utf8_text (getCommitPath home s))"
  unfolding getCommitPath_def
  by (rule file_name_suffix, rule path_join_suffix)
    (simp_all add: str_def isHighSurrogate_def isLowSurrogate_def)

lemma log_name_suffix: "suffix (str ''.jsonl'') (utf8_text (getLogPath home s))"
  unfolding getLogPath_def
  by (rule file_name_suffix, rule path_join_suffix)
    (simp_all add: str_def isHighSurrogate_def isLowSurrogate_def)

lemma suffixes_clash:
  "suffix (str ''.question.txt'') k \<Longrightarrow> suffix (str ''.commit.txt'') k \<Longrightarrow> False"
  "suffix (str ''.jsonl'') k \<Longrightarrow> suffix (str ''.question.txt'') k \<Longrightarrow> False"
  "suffix (str ''.jsonl'') k \<Longrightarrow> suffix (str ''.commit.txt'') k \<Longrightarrow> False"
  by (auto simp add: suffix_to_prefix prefix_def str_def)

text \<open>
  The three files of a session have different suffixes, so no marker file of one session
  is the other marker file or the log file of any session, and the log never touches a
  flag.
\<close>

lemma question_ne_commit [simp]:
  "utf8_text (getQuestionPath home s) \<noteq> utf8_text (getCommitPath home s')"
  "utf8_text (getCommitPath home s') \<noteq> utf8_text (getQuestionPath home s)"
  using suffixes_clash(1) question_name_suffix [of home s] commit_name_suffix [of home s']
  by metis+

lemma log_ne_marker [simp]:
  "utf8_text (getLogPath home s) \<noteq> utf8_text (getQuestionPath home s')"
  "utf8_text (getLogPath home s) \<noteq> utf8_text (getCommitPath home s')"
  "utf8_text (getQuestionPath home s') \<noteq> utf8_text (getLogPath home s)"
  "utf8_text (getCommitPath home s') \<noteq> utf8_text (getLogPath home s)"
  using suffixes_clash(2,3) question_name_suffix [of home s'] commit_name_suffix [of home s']
    log_name_suffix [of home s]
  by metis+

lemma writeLog_question [simp]:
  "writeLog en home we sid e fs0 (utf8_text (getQuestionPath home s)) = fs0 (utf8_text (getQuestionPath home s))"
  by (simp add: writeLog_def split: option.splits)

lemma writeLog_commit [simp]:
  "writeLog en home we sid e fs0 (utf8_text (getCommitPath home s)) = fs0 (utf8_text (getCommitPath home s))"
  by (simp add: writeLog_def split: option.splits)

lemma deleteMarkerFile_apply [simp]:
  "deleteMarkerFile p fs0 q = (if q = utf8_text p then None else fs0 q)"
  by (simp add: deleteMarkerFile_def unlink_def split: option.splits)

section \<open>Properties of the matcher\<close>

text \<open>A pattern that starts with \<open>^\<close> matches at the first position or nowhere.\<close>

lemma exec_Bol [simp]: "exec ic (Bol # r) (Some c) rest = False"
  by (induction rest arbitrary: c) simp_all

lemma test_Bol: "test ic (Bol # r) s = (match ic r None s \<noteq> None)"
  by (cases s) (simp_all add: test_def)

lemma replace_from_Bol [simp]: "replace_from ic (Bol # r) (Some c) rest = rest"
  by (induction rest arbitrary: c) simp_all

lemma replace_empty_Bol:
  "replace_empty ic (Bol # r) s = (case match ic r None s of Some e \<Rightarrow> e | None \<Rightarrow> s)"
  by (cases s) (simp_all add: replace_empty_def split: option.splits)

lemma match_One:
  "match ic (One a # r) prev inp =
     (case inp of [] \<Rightarrow> None | c # cs \<Rightarrow> if atom_ok ic a c then match ic r (Some c) cs else None)"
  by (cases inp) simp_all

lemma atom_ok_Space_fun [simp]: "atom_ok ic Space = isSpace"
  by (rule ext) simp

text \<open>A trailing greedy star takes the longest run.\<close>

lemma match_Star_only: "match ic [Star a] prev inp = Some (dropWhile (atom_ok ic a) inp)"
  by (induction inp arbitrary: prev) simp_all

text \<open>
  Backtracking is complete for the quantifiers: when some split of the input lets the
  rest of the pattern match, the matcher finds a match.
\<close>

lemma match_Star_skip:
  "match ic r prev rest \<noteq> None \<Longrightarrow> match ic (Star a # r) prev rest \<noteq> None"
  by (cases rest) (auto split: option.splits)

lemma match_Star_complete:
  "list_all (atom_ok ic a) xs \<Longrightarrow> match ic r (after prev xs) rest \<noteq> None
   \<Longrightarrow> match ic (Star a # r) prev (xs @ rest) \<noteq> None"
proof (induction xs arbitrary: prev)
  case Nil
  then show ?case by (simp add: after_def match_Star_skip del: match.simps)
next
  case (Cons x xs)
  from Cons.prems have "match ic r (after (Some x) xs) rest \<noteq> None"
    by (simp add: after_def split: if_splits)
  with Cons.prems Cons.IH [of "Some x"] have "match ic (Star a # r) (Some x) (xs @ rest) \<noteq> None"
    by simp
  with Cons.prems show ?case by (auto split: option.splits)
qed

lemma match_Plus_complete:
  assumes "xs \<noteq> []" and "list_all (atom_ok ic a) xs"
    and "match ic r (Some (last xs)) rest \<noteq> None"
  shows "match ic (Plus a # r) prev (xs @ rest) \<noteq> None"
proof -
  from assms(1) obtain y ys where xs: "xs = y # ys" by (cases xs) auto
  from assms(3) have "match ic r (after (Some y) ys) rest \<noteq> None"
    by (simp add: after_def xs split: if_splits)
  with assms(2) have "match ic (Star a # r) (Some y) (ys @ rest) \<noteq> None"
    by (intro match_Star_complete) (simp_all add: xs)
  with assms(2) show ?thesis by (simp add: xs)
qed

lemma test_at_start: "match ic re None s \<noteq> None \<Longrightarrow> test ic re s"
  by (cases s) (simp_all add: test_def)

section \<open>Properties of the hook handler\<close>

lemma event_names_distinct [simp]:
  "str ''UserPromptSubmit'' \<noteq> str ''PreToolUse''"
  "str ''UserPromptSubmit'' \<noteq> str ''Stop''"
  "str ''UserPromptSubmit'' \<noteq> str ''SessionStart''"
  "str ''PreToolUse'' \<noteq> str ''UserPromptSubmit''"
  "str ''PreToolUse'' \<noteq> str ''Stop''"
  "str ''PreToolUse'' \<noteq> str ''SessionStart''"
  "str ''Stop'' \<noteq> str ''UserPromptSubmit''"
  "str ''Stop'' \<noteq> str ''PreToolUse''"
  "str ''Stop'' \<noteq> str ''SessionStart''"
  "str ''SessionStart'' \<noteq> str ''UserPromptSubmit''"
  "str ''SessionStart'' \<noteq> str ''PreToolUse''"
  "str ''SessionStart'' \<noteq> str ''Stop''"
  by (simp_all add: str_def)

lemma Bash_not_safe [simp]: "str ''Bash'' \<notin> set SAFE_TOOLS"
  by (simp add: SAFE_TOOLS_def str_def)

lemma preToolUse_files_question [simp]:
  "files (preToolUse en home we sid ev fs0) (utf8_text (getQuestionPath home s)) = fs0 (utf8_text (getQuestionPath home s))"
  by (simp add: preToolUse_def Let_def split: option.splits list.splits)

lemma preToolUse_files_commit [simp]:
  "files (preToolUse en home we sid ev fs0) (utf8_text (getCommitPath home s)) = fs0 (utf8_text (getCommitPath home s))"
  by (simp add: preToolUse_def Let_def split: option.splits list.splits)

subsection \<open>A pending question and the read-only tools\<close>

text \<open>
  C1. On a pre-tool-use event in a session whose question flag is set, a tool name outside
  the allow-list (Read, Grep, Glob, LS, WebFetch, WebSearch, ListMcpResourcesTool,
  ReadMcpResourceTool, TodoRead) is blocked: one error body on standard error and exit
  code 2, whatever the commit-approval flag is. A tool name in the allow-list is allowed:
  the neutral response on standard output and exit code 0.
\<close>

theorem question_flag_blocks_all_but_read_only_tools:
  assumes "hook_event_name ev = Some (str ''PreToolUse'')"
    and "questionFlag home fs0 (sessionOf ev) \<noteq> None"
  shows "(toolNameOf ev \<notin> Some ` str ` {''Read'', ''Grep'', ''Glob'', ''LS'', ''WebFetch'', ''WebSearch'',
              ''ListMcpResourcesTool'', ''ReadMcpResourceTool'', ''TodoRead''}
          \<longrightarrow> emitted (handleHook en home we (Parsed ev) fs0) = [(Stderr, ErrorBody question_block_message)]
              \<and> exit_code (handleHook en home we (Parsed ev) fs0) = 2)
       \<and> (toolNameOf ev \<in> Some ` str ` {''Read'', ''Grep'', ''Glob'', ''LS'', ''WebFetch'', ''WebSearch'',
              ''ListMcpResourcesTool'', ''ReadMcpResourceTool'', ''TodoRead''}
          \<longrightarrow> emitted (handleHook en home we (Parsed ev) fs0) = [(Stdout, EmptyObject)]
              \<and> exit_code (handleHook en home we (Parsed ev) fs0) = 0)"
proof -
  have safe: "(case toolNameOf ev of None \<Rightarrow> False | Some t \<Rightarrow> t \<in> set SAFE_TOOLS)
      = (toolNameOf ev \<in> Some ` str ` {''Read'', ''Grep'', ''Glob'', ''LS'', ''WebFetch'', ''WebSearch'',
              ''ListMcpResourcesTool'', ''ReadMcpResourceTool'', ''TodoRead''})"
    by (auto simp add: SAFE_TOOLS_def split: option.splits)
  have bash: "toolNameOf ev = Some (str ''Bash'')
      \<Longrightarrow> \<not> (case toolNameOf ev of None \<Rightarrow> False | Some t \<Rightarrow> t \<in> set SAFE_TOOLS)"
    by simp
  from assms have q: "fileExists (writeLog en home we (sessionOf ev) ''hook_received'' fs0)
      (getQuestionPath home (sessionOf ev))"
    by (simp add: fileExists_def questionFlag_def)
  show ?thesis
    unfolding safe [symmetric]
    using assms(1) q bash
    by (auto simp add: handleHook_def preToolUse_def Let_def)
qed

theorem question_flag_blocks_all_but_read_only_tools_witness:
  "emitted (handleHook True example_home everyWriteSucceeds (Parsed (toolEvent ''s1'' ''Bash'' ''git commit -m x''))
       [utf8_text (getQuestionPath example_home (str ''s1'')) \<mapsto> str ''what is x?'',
        utf8_text (getCommitPath example_home (str ''s1'')) \<mapsto> str ''fix bug''])
     = [(Stderr, ErrorBody question_block_message)]
   \<and> exit_code (handleHook True example_home everyWriteSucceeds (Parsed (toolEvent ''s1'' ''Bash'' ''git commit -m x''))
       [utf8_text (getQuestionPath example_home (str ''s1'')) \<mapsto> str ''what is x?'',
        utf8_text (getCommitPath example_home (str ''s1'')) \<mapsto> str ''fix bug'']) = 2
   \<and> emitted (handleHook True example_home everyWriteSucceeds (Parsed (toolEvent ''s1'' ''Read'' ''x''))
       [utf8_text (getQuestionPath example_home (str ''s1'')) \<mapsto> str ''what is x?''])
     = [(Stdout, EmptyObject)]
   \<and> exit_code (handleHook True example_home everyWriteSucceeds (Parsed (toolEvent ''s1'' ''Read'' ''x''))
       [utf8_text (getQuestionPath example_home (str ''s1'')) \<mapsto> str ''what is x?'']) = 0"
proof -
  have e: "hook_event_name (toolEvent ''s1'' t c) = Some (str ''PreToolUse'')" for t c
    by (simp add: toolEvent_def)
  have q: "questionFlag example_home [utf8_text (getQuestionPath example_home (str ''s1'')) \<mapsto> str ''what is x?'']
      (sessionOf (toolEvent ''s1'' t c)) \<noteq> None" for t c
    by (simp add: questionFlag_def sessionOf_def toolEvent_def str_def)
  have q': "questionFlag example_home
      [utf8_text (getQuestionPath example_home (str ''s1'')) \<mapsto> str ''what is x?'',
       utf8_text (getCommitPath example_home (str ''s1'')) \<mapsto> str ''fix bug'']
      (sessionOf (toolEvent ''s1'' t c)) \<noteq> None" for t c
    by (simp add: questionFlag_def sessionOf_def toolEvent_def str_def)
  have w: "toolNameOf (toolEvent ''s1'' ''Bash'' ''git commit -m x'') \<notin> Some ` str ` {''Read'', ''Grep'',
      ''Glob'', ''LS'', ''WebFetch'', ''WebSearch'', ''ListMcpResourcesTool'', ''ReadMcpResourceTool'',
      ''TodoRead''}"
    by (simp add: toolNameOf_def or_string_def toolEvent_def str_def image_iff)
  have r: "toolNameOf (toolEvent ''s1'' ''Read'' ''x'') \<in> Some ` str ` {''Read'', ''Grep'', ''Glob'', ''LS'',
      ''WebFetch'', ''WebSearch'', ''ListMcpResourcesTool'', ''ReadMcpResourceTool'', ''TodoRead''}"
    by (simp add: toolNameOf_def or_string_def toolEvent_def str_def image_iff)
  from question_flag_blocks_all_but_read_only_tools [OF e q', of "''Bash''" "''git commit -m x''", where en = True and we = everyWriteSucceeds] w
    question_flag_blocks_all_but_read_only_tools [OF e q, of "''Read''" "''x''", where en = True and we = everyWriteSucceeds] r
  show ?thesis by blast
qed

lemma isQuestionPrefix_undefined [simp]: "\<not> isQuestionPrefix None"
  by (simp add: isQuestionPrefix_def ToString_def question_re_def test_Bol lit_def str_def)

lemma isCommitPrefix_undefined [simp]: "\<not> isCommitPrefix None"
  by (simp add: isCommitPrefix_def ToString_def commit_re_def test_Bol lit_def str_def canonicalize_def)

lemma isGitCommit_empty [simp]: "\<not> isGitCommit []"
  by (simp add: isGitCommit_def gitCommitPatterns_def test_def lit_def isWordAt_def next_unit_def)

lemma example_sessionOf [simp]:
  "sessionOf (toolEvent ''s1'' t c) = str ''s1''"
  "sessionOf (toolEvent ''s2'' t c) = str ''s2''"
  "sessionOf (toolEvent ''s3'' t c) = str ''s3''"
  "sessionOf (promptEvent ''s1'' p) = str ''s1''"
  "sessionOf (promptEvent ''s2'' p) = str ''s2''"
  "sessionOf (lifecycleEvent ''s1'' n) = str ''s1''"
  by (simp_all add: sessionOf_def toolEvent_def promptEvent_def lifecycleEvent_def str_def)

lemma example_event_name [simp]:
  "hook_event_name (toolEvent s t c) = Some (str ''PreToolUse'')"
  "hook_event_name (promptEvent s p) = Some (str ''UserPromptSubmit'')"
  "hook_event_name (lifecycleEvent s n) = Some (str n)"
  by (simp_all add: toolEvent_def promptEvent_def lifecycleEvent_def)

lemma example_sessions_differ:
  "utf8_text (getCommitPath example_home (str ''s1'')) \<noteq> utf8_text (getCommitPath example_home (str ''s2''))"
  by (simp add: getCommitPath_def getStateDir_def path_join_def normalize_def normalizeString_def
      step_def str_def example_home_def isHighSurrogate_def isLowSurrogate_def)

lemma example_git_commit: "isGitCommit (str ''git commit -m x'')"
  by (simp add: isGitCommit_def gitCommitPatterns_def test_def lit_def str_def isSpace_def isWordAt_def
        next_unit_def isWordChar_def)

subsection \<open>The commit gate\<close>

lemma handleHook_keeps_commit_flag:
  assumes "\<not> sessionBoundary home s input" and "commitFlag home fs0 s \<noteq> None"
  shows "commitFlag home (files (handleHook en home we input fs0)) s \<noteq> None"
proof (cases input)
  case (Throws message)
  with assms(2) show ?thesis by (simp add: handleHook_def catchBlock_def commitFlag_def)
next
  case (Parsed ev)
  with assms show ?thesis
    by (cases "prompt ev")
      (auto simp add: handleHook_def Let_def commitFlag_def sessionBoundary_def cleanupSession_def
        userPromptSubmit_def questionBranch_def commitBranch_def catchBlock_def createMarkerFile_def
        split: option.splits)
qed

lemma runAll_keeps_commit_flag:
  "\<forall>input \<in> set inputs. \<not> sessionBoundary home s input \<Longrightarrow> commitFlag home fs0 s \<noteq> None
   \<Longrightarrow> commitFlag home (runAll en home we inputs fs0) s \<noteq> None"
proof (induction inputs arbitrary: fs0)
  case Nil
  then show ?case by simp
next
  case (Cons input inputs)
  from Cons.prems have "commitFlag home (files (handleHook en home we input fs0)) s \<noteq> None"
    by (intro handleHook_keeps_commit_flag) simp_all
  with Cons.prems Cons.IH [of "files (handleHook en home we input fs0)"] show ?case by simp
qed

lemma preToolUse_keeps_flags:
  assumes "hook_event_name ev = Some (str ''PreToolUse'')"
  shows "commitFlag home (files (handleHook en home we (Parsed ev) fs0)) s = commitFlag home fs0 s"
    and "questionFlag home (files (handleHook en home we (Parsed ev) fs0)) s = questionFlag home fs0 s"
  using assms by (simp_all add: handleHook_def Let_def commitFlag_def questionFlag_def)

text \<open>
  C2. On a pre-tool-use event that names the shell tool \<open>Bash\<close> with a command that the
  git-commit recognizer accepts, in a session without question flag: the outcome is BLOCK
  (an error body on standard error, exit code 2) when the commit-approval flag is absent,
  and ALLOW (the neutral response on standard output, exit code 0) when it is set. The
  tool call leaves the flag as it is, and the flag stays set over every sequence of later
  events that contains no session boundary of this session: no \<open>Stop\<close> or
  \<open>SessionStart\<close> whose session id names the session's marker file.
\<close>

theorem git_commit_needs_commit_approval:
  assumes "hook_event_name ev = Some (str ''PreToolUse'')"
    and "toolNameOf ev = Some (str ''Bash'')"
    and "commandOf ev = Some cmd"
    and "isGitCommit cmd"
    and "questionFlag home fs0 (sessionOf ev) = None"
  shows "(commitFlag home fs0 (sessionOf ev) = None
          \<longrightarrow> emitted (handleHook en home we (Parsed ev) fs0) = [(Stderr, ErrorBody commit_block_message)]
              \<and> exit_code (handleHook en home we (Parsed ev) fs0) = 2)
       \<and> (commitFlag home fs0 (sessionOf ev) \<noteq> None
          \<longrightarrow> emitted (handleHook en home we (Parsed ev) fs0) = [(Stdout, EmptyObject)]
              \<and> exit_code (handleHook en home we (Parsed ev) fs0) = 0
              \<and> commitFlag home (files (handleHook en home we (Parsed ev) fs0)) (sessionOf ev)
                  = commitFlag home fs0 (sessionOf ev)
              \<and> (\<forall>inputs. (\<forall>input \<in> set inputs. \<not> sessionBoundary home (sessionOf ev) input)
                    \<longrightarrow> commitFlag home (runAll en home we inputs fs0) (sessionOf ev) \<noteq> None))"
proof -
  from assms(3,4) obtain c cs where cmd: "cmd = c # cs" by (cases cmd) auto
  have gate: "emitted (handleHook en home we (Parsed ev) fs0)
        = (if commitFlag home fs0 (sessionOf ev) = None then [(Stderr, ErrorBody commit_block_message)]
           else [(Stdout, EmptyObject)])
      \<and> exit_code (handleHook en home we (Parsed ev) fs0)
        = (if commitFlag home fs0 (sessionOf ev) = None then 2 else 0)"
    using assms unfolding cmd
    by (simp add: handleHook_def preToolUse_def Let_def questionFlag_def commitFlag_def fileExists_def)
  show ?thesis
    using gate preToolUse_keeps_flags(1) [OF assms(1)] runAll_keeps_commit_flag
    by (simp del: runAll.simps)
qed

theorem git_commit_needs_commit_approval_witness:
  "emitted (handleHook False example_home everyWriteSucceeds (Parsed (toolEvent ''s3'' ''Bash'' ''git commit -m x'')) Map.empty)
     = [(Stderr, ErrorBody commit_block_message)]
   \<and> exit_code (handleHook False example_home everyWriteSucceeds (Parsed (toolEvent ''s3'' ''Bash'' ''git commit -m x'')) Map.empty) = 2
   \<and> emitted (handleHook False example_home everyWriteSucceeds (Parsed (toolEvent ''s2'' ''Bash'' ''git commit -m x''))
        [utf8_text (getCommitPath example_home (str ''s2'')) \<mapsto> str ''fix bug''])
     = [(Stdout, EmptyObject)]
   \<and> exit_code (handleHook False example_home everyWriteSucceeds (Parsed (toolEvent ''s2'' ''Bash'' ''git commit -m x''))
        [utf8_text (getCommitPath example_home (str ''s2'')) \<mapsto> str ''fix bug'']) = 0
   \<and> commitFlag example_home
        (runAll False example_home everyWriteSucceeds
           [Parsed (toolEvent ''s2'' ''Bash'' ''git commit -m x''), Parsed (toolEvent ''s2'' ''Write'' ''x''),
            Parsed (lifecycleEvent ''s1'' ''Stop'')]
           [utf8_text (getCommitPath example_home (str ''s2'')) \<mapsto> str ''fix bug''])
        (str ''s2'') \<noteq> None"
proof -
  have e: "hook_event_name (toolEvent s ''Bash'' ''git commit -m x'') = Some (str ''PreToolUse'')" for s
    by (simp add: toolEvent_def)
  have t: "toolNameOf (toolEvent s ''Bash'' ''git commit -m x'') = Some (str ''Bash'')" for s
    by (simp add: toolNameOf_def or_string_def toolEvent_def str_def)
  have c: "commandOf (toolEvent s ''Bash'' ''git commit -m x'') = Some (str ''git commit -m x'')" for s
    by (simp add: commandOf_def toolParamsOf_def or_object_def toolEvent_def)
  have q3: "questionFlag example_home Map.empty (sessionOf (toolEvent ''s3'' ''Bash'' ''git commit -m x'')) = None"
    by (simp add: questionFlag_def)
  have q2: "questionFlag example_home [utf8_text (getCommitPath example_home (str ''s2'')) \<mapsto> str ''fix bug'']
      (sessionOf (toolEvent ''s2'' ''Bash'' ''git commit -m x'')) = None"
    by (simp add: questionFlag_def)
  have b: "\<forall>input \<in> set [Parsed (toolEvent ''s2'' ''Bash'' ''git commit -m x''),
      Parsed (toolEvent ''s2'' ''Write'' ''x''), Parsed (lifecycleEvent ''s1'' ''Stop'')].
      \<not> sessionBoundary example_home (str ''s2'') input"
    by (simp add: sessionBoundary_def example_sessions_differ)
  have f3: "commitFlag example_home Map.empty (str ''s3'') = None"
    by (simp add: commitFlag_def)
  have f2: "commitFlag example_home [utf8_text (getCommitPath example_home (str ''s2'')) \<mapsto> str ''fix bug''] (str ''s2'') \<noteq> None"
    by (simp add: commitFlag_def)
  from git_commit_needs_commit_approval [OF e t c example_git_commit q3, where en = False and we = everyWriteSucceeds] f3
    git_commit_needs_commit_approval [OF e t c example_git_commit q2, where en = False and we = everyWriteSucceeds] f2 b
  show ?thesis by (simp del: runAll.simps)
qed

text \<open>
  A session id that \<open>path.join\<close> normalises to the files of another session is a
  boundary of that session: a \<open>Stop\<close> for \<open>./s2\<close> clears the commit-approval flag of
  \<open>s2\<close>.
\<close>

lemma aliasing_stop_is_boundary:
  "sessionBoundary example_home (str ''s2'') (Parsed (lifecycleEvent ''./s2'' ''Stop''))
   \<and> commitFlag example_home
        (files (handleHook False example_home everyWriteSucceeds (Parsed (lifecycleEvent ''./s2'' ''Stop''))
           [utf8_text (getCommitPath example_home (str ''s2'')) \<mapsto> str ''fix bug'']))
        (str ''s2'') = None"
proof -
  have k: "utf8_text (getCommitPath example_home (str ''./s2''))
      = utf8_text (getCommitPath example_home (str ''s2''))"
    by (simp add: getCommitPath_def getStateDir_def path_join_def normalize_def normalizeString_def
        step_def str_def example_home_def isHighSurrogate_def isLowSurrogate_def)
  have s: "sessionOf (lifecycleEvent ''./s2'' ''Stop'') = str ''./s2''"
    by (simp add: sessionOf_def lifecycleEvent_def str_def)
  from k s show ?thesis
    by (simp add: sessionBoundary_def handleHook_def Let_def cleanupSession_def commitFlag_def)
qed

subsection \<open>Session boundaries\<close>

text \<open>
  C3. After a \<open>Stop\<close> or \<open>SessionStart\<close> event, whatever the files were before, the
  session has neither flag, the response is the neutral one on standard output and the
  exit code is 0. Deleting a marker file that is absent fails inside \<open>unlink\<close>, and
  \<open>deleteMarkerFile\<close> swallows the failure and leaves the files as they are.
\<close>

theorem session_boundary_clears_both_flags:
  assumes "hook_event_name ev = Some (str ''Stop'') \<or> hook_event_name ev = Some (str ''SessionStart'')"
  shows "questionFlag home (files (handleHook en home we (Parsed ev) fs0)) (sessionOf ev) = None
       \<and> commitFlag home (files (handleHook en home we (Parsed ev) fs0)) (sessionOf ev) = None
       \<and> emitted (handleHook en home we (Parsed ev) fs0) = [(Stdout, EmptyObject)]
       \<and> exit_code (handleHook en home we (Parsed ev) fs0) = 0
       \<and> (\<forall>p. fs0 (utf8_text p) = None \<longrightarrow> unlink p fs0 = Inl ENOENT \<and> deleteMarkerFile p fs0 = fs0)"
proof -
  have "\<forall>p. fs0 (utf8_text p) = None \<longrightarrow> unlink p fs0 = Inl ENOENT \<and> deleteMarkerFile p fs0 = fs0"
    by (simp add: unlink_def deleteMarkerFile_def)
  moreover from assms
  have "questionFlag home (files (handleHook en home we (Parsed ev) fs0)) (sessionOf ev) = None
       \<and> commitFlag home (files (handleHook en home we (Parsed ev) fs0)) (sessionOf ev) = None
       \<and> emitted (handleHook en home we (Parsed ev) fs0) = [(Stdout, EmptyObject)]
       \<and> exit_code (handleHook en home we (Parsed ev) fs0) = 0"
    by (auto simp add: handleHook_def Let_def cleanupSession_def questionFlag_def commitFlag_def)
  ultimately show ?thesis by blast
qed

theorem session_boundary_clears_both_flags_witness:
  "questionFlag example_home
      (files (handleHook True example_home everyWriteSucceeds (Parsed (lifecycleEvent ''s1'' ''Stop''))
         [utf8_text (getQuestionPath example_home (str ''s1'')) \<mapsto> str ''what is x?'',
          utf8_text (getCommitPath example_home (str ''s1'')) \<mapsto> str ''fix bug''])) (str ''s1'') = None
   \<and> commitFlag example_home
      (files (handleHook True example_home everyWriteSucceeds (Parsed (lifecycleEvent ''s1'' ''Stop''))
         [utf8_text (getQuestionPath example_home (str ''s1'')) \<mapsto> str ''what is x?'',
          utf8_text (getCommitPath example_home (str ''s1'')) \<mapsto> str ''fix bug''])) (str ''s1'') = None
   \<and> emitted (handleHook True example_home everyWriteSucceeds (Parsed (lifecycleEvent ''s1'' ''SessionStart'')) Map.empty)
      = [(Stdout, EmptyObject)]
   \<and> exit_code (handleHook True example_home everyWriteSucceeds (Parsed (lifecycleEvent ''s1'' ''SessionStart'')) Map.empty) = 0
   \<and> deleteMarkerFile (getQuestionPath example_home (str ''s1'')) Map.empty = Map.empty"
proof -
  have a: "hook_event_name (lifecycleEvent ''s1'' ''Stop'') = Some (str ''Stop'')
      \<or> hook_event_name (lifecycleEvent ''s1'' ''Stop'') = Some (str ''SessionStart'')"
    by (simp add: lifecycleEvent_def)
  have b: "hook_event_name (lifecycleEvent ''s1'' ''SessionStart'') = Some (str ''Stop'')
      \<or> hook_event_name (lifecycleEvent ''s1'' ''SessionStart'') = Some (str ''SessionStart'')"
    by (simp add: lifecycleEvent_def)
  from session_boundary_clears_both_flags [OF a, where home = example_home and en = True and we = everyWriteSucceeds]
    session_boundary_clears_both_flags [OF b, where home = example_home and en = True and we = everyWriteSucceeds and ?fs0.0 = Map.empty]
  show ?thesis by simp
qed

subsection \<open>What the commit gate does not cover\<close>

text \<open>
  C10. The commit gate is entered only when the tool name is exactly \<open>Bash\<close> and the tool
  parameters have a \<open>command\<close>. In a session without question flag, a pre-tool-use event
  with any other tool name, or without a command, is allowed with exit code 0, also when
  its command would be recognized as a git commit and the commit-approval flag is absent.
\<close>

theorem commit_gate_only_for_Bash_with_command:
  assumes "hook_event_name ev = Some (str ''PreToolUse'')"
    and "questionFlag home fs0 (sessionOf ev) = None"
    and "toolNameOf ev \<noteq> Some (str ''Bash'') \<or> commandOf ev = None"
  shows "emitted (handleHook en home we (Parsed ev) fs0) = [(Stdout, EmptyObject)]
       \<and> exit_code (handleHook en home we (Parsed ev) fs0) = 0"
  using assms
  by (auto simp add: handleHook_def preToolUse_def Let_def questionFlag_def fileExists_def)

theorem commit_gate_only_for_Bash_with_command_witness:
  "isGitCommit (str ''git commit -m x'')
   \<and> commitFlag example_home Map.empty (str ''s3'') = None
   \<and> emitted (handleHook False example_home everyWriteSucceeds (Parsed (toolEvent ''s3'' ''bash'' ''git commit -m x'')) Map.empty)
      = [(Stdout, EmptyObject)]
   \<and> exit_code (handleHook False example_home everyWriteSucceeds (Parsed (toolEvent ''s3'' ''bash'' ''git commit -m x'')) Map.empty) = 0"
proof -
  have e: "hook_event_name (toolEvent ''s3'' ''bash'' ''git commit -m x'') = Some (str ''PreToolUse'')"
    by (simp add: toolEvent_def)
  have q: "questionFlag example_home Map.empty (sessionOf (toolEvent ''s3'' ''bash'' ''git commit -m x'')) = None"
    by (simp add: questionFlag_def)
  have t: "toolNameOf (toolEvent ''s3'' ''bash'' ''git commit -m x'') \<noteq> Some (str ''Bash'')
      \<or> commandOf (toolEvent ''s3'' ''bash'' ''git commit -m x'') = None"
    by (simp add: toolNameOf_def or_string_def toolEvent_def str_def)
  from commit_gate_only_for_Bash_with_command [OF e q t, where en = False and we = everyWriteSucceeds] example_git_commit
  show ?thesis by (simp add: commitFlag_def)
qed

section \<open>Properties of the recognizers\<close>

text \<open>
  What the two prompt patterns accept, and what the two \<open>replace\<close> calls leave.
\<close>

lemma isQuestionPrefix_iff:
  "isQuestionPrefix (Some p) = (\<exists>w r. p = str ''Q:'' @ w # r \<and> isSpace w)"
  by (auto simp add: isQuestionPrefix_def ToString_def question_re_def test_Bol lit_def match_One str_def
      split: list.splits)

lemma question_strip:
  "isSpace w \<Longrightarrow> replace_empty False question_strip_re (str ''Q:'' @ w # r) = dropWhile isSpace r"
  by (simp add: question_strip_re_def replace_empty_Bol lit_def str_def match_Star_only del: match.simps(4,5))

lemma marker_length:
  assumes "map canonicalize m = map canonicalize (str ''commit!'')"
  obtains c1 c2 c3 c4 c5 c6 c7 where "m = [c1, c2, c3, c4, c5, c6, c7]"
  using assms by (auto simp add: str_def map_eq_Cons_conv)

lemma isCommitPrefix_iff:
  "isCommitPrefix (Some p) =
     (\<exists>m r. p = m @ r \<and> map canonicalize m = map canonicalize (str ''commit!'')
        \<and> (r = [] \<or> isSpace (hd r)))"
  (is "?L = ?R")
proof
  assume ?L
  then obtain c1 c2 c3 c4 c5 c6 c7 r where p: "p = [c1, c2, c3, c4, c5, c6, c7] @ r"
    and m: "map canonicalize [c1, c2, c3, c4, c5, c6, c7] = map canonicalize (str ''commit!'')"
    and r: "r = [] \<or> isSpace (hd r)"
    by (auto simp add: isCommitPrefix_def ToString_def commit_re_def test_Bol lit_def match_One str_def
        split: list.splits if_splits option.splits)
  then show ?R by blast
next
  assume ?R
  then obtain m r where p: "p = m @ r"
    and m: "map canonicalize m = map canonicalize (str ''commit!'')"
    and r: "r = [] \<or> isSpace (hd r)" by blast
  from m obtain c1 c2 c3 c4 c5 c6 c7 where m7: "m = [c1, c2, c3, c4, c5, c6, c7]"
    by (rule marker_length)
  from m r show ?L unfolding p m7
    by (cases r) (simp_all add: isCommitPrefix_def ToString_def commit_re_def test_Bol lit_def match_One str_def)
qed

lemma commit_strip:
  assumes "map canonicalize m = map canonicalize (str ''commit!'')"
  shows "replace_empty True commit_strip_re (m @ r) = dropWhile isSpace r"
proof -
  from assms obtain c1 c2 c3 c4 c5 c6 c7 where m7: "m = [c1, c2, c3, c4, c5, c6, c7]"
    by (rule marker_length)
  from assms show ?thesis unfolding m7
    by (simp add: commit_strip_re_def replace_empty_Bol lit_def str_def match_Star_only del: match.simps(4,5))
qed

lemma prefixes_exclusive: "isQuestionPrefix p \<Longrightarrow> \<not> isCommitPrefix p"
proof (cases p)
  case None
  then show ?thesis by simp
next
  case (Some s)
  assume q: "isQuestionPrefix p"
  show ?thesis
  proof
    assume c: "isCommitPrefix p"
    from q Some obtain w r where s: "s = str ''Q:'' @ w # r" by (auto simp add: isQuestionPrefix_iff)
    from c Some obtain m r' where s': "s = m @ r'"
      and m: "map canonicalize m = map canonicalize (str ''commit!'')"
      by (auto simp add: isCommitPrefix_iff)
    from m obtain c cs where mc: "m = c # cs" and c: "canonicalize c = 67"
      by (auto simp add: str_def map_eq_Cons_conv canonicalize_def)
    from s s' mc have "c = 81" by (simp add: str_def)
    with c show False by (simp add: canonicalize_def)
  qed
qed

lemma dropWhile_run:
  assumes "list_all P ws" and "residual = [] \<or> \<not> P (hd residual)"
  shows "dropWhile P (ws @ residual) = residual"
proof -
  from assms(1) have "dropWhile P (ws @ residual) = dropWhile P residual"
    by (intro dropWhile_append2) (simp add: list_all_iff)
  also from assms(2) have "dropWhile P residual = residual" by (cases residual) auto
  finally show ?thesis .
qed

text \<open>
  The git patterns: the word \<open>commit\<close> followed by a word boundary, and the two shapes of
  command that the patterns accept.
\<close>

lemma commit_tail:
  "rest = [] \<or> \<not> isWordChar (hd rest)
   \<Longrightarrow> match False (lit ''commit'' @ [WordB]) prev (str ''commit'' @ rest) \<noteq> None"
  by (cases rest) (auto simp add: lit_def str_def isWordAt_def next_unit_def isWordChar_def)

lemma git_bare:
  assumes "ws \<noteq> []" and "list_all isSpace ws" and "rest = [] \<or> \<not> isWordChar (hd rest)"
  shows "isGitCommit (str ''git'' @ ws @ str ''commit'' @ rest)"
proof -
  have "match False (Plus Space # lit ''commit'' @ [WordB]) (Some 116) (ws @ str ''commit'' @ rest) \<noteq> None"
    using assms by (intro match_Plus_complete commit_tail) simp_all
  then have "match False (WordB # lit ''git'' @ [Plus Space] @ lit ''commit'' @ [WordB]) None
      (str ''git'' @ ws @ str ''commit'' @ rest) \<noteq> None"
    by (simp add: lit_def str_def isWordAt_def next_unit_def isWordChar_def del: match.simps(6,7))
  then show ?thesis by (simp add: isGitCommit_def gitCommitPatterns_def test_at_start)
qed

lemma git_flags:
  assumes "ws1 \<noteq> []" and "list_all isSpace ws1"
    and "list_all (\<lambda>c. \<not> isLineTerminator c) flags"
    and "ws2 \<noteq> []" and "list_all isSpace ws2"
    and "rest = [] \<or> \<not> isWordChar (hd rest)"
  shows "isGitCommit (str ''git'' @ ws1 @ flags @ ws2 @ str ''commit'' @ rest)"
proof -
  have 1: "match False (Plus Space # lit ''commit'' @ [WordB]) (after (Some (last ws1)) flags)
      (ws2 @ str ''commit'' @ rest) \<noteq> None"
    using assms by (intro match_Plus_complete commit_tail) simp_all
  have 2: "match False (Star Dot # Plus Space # lit ''commit'' @ [WordB]) (Some (last ws1))
      (flags @ ws2 @ str ''commit'' @ rest) \<noteq> None"
    using assms(3) 1 by (intro match_Star_complete) (simp_all add: list_all_iff)
  have "match False (Plus Space # Star Dot # Plus Space # lit ''commit'' @ [WordB]) (Some 116)
      (ws1 @ flags @ ws2 @ str ''commit'' @ rest) \<noteq> None"
    using assms(1,2) 2 by (intro match_Plus_complete) simp_all
  then have "match False (WordB # lit ''git'' @ [Plus Space, Star Dot, Plus Space] @ lit ''commit'' @ [WordB]) None
      (str ''git'' @ ws1 @ flags @ ws2 @ str ''commit'' @ rest) \<noteq> None"
    by (simp add: lit_def str_def isWordAt_def next_unit_def isWordChar_def del: match.simps(4,5,6,7))
  then show ?thesis by (simp add: isGitCommit_def gitCommitPatterns_def test_at_start)
qed

subsection \<open>Prompt-submitted events\<close>

text \<open>
  The flags and the response after a prompt-submitted event. A marker file that cannot
  be written ends the run in the \<open>catch\<close> block, with the flag as it was.
\<close>

lemma prompt_question_flag:
  assumes "hook_event_name ev = Some (str ''UserPromptSubmit'')" and "prompt ev = Some p"
  shows "questionFlag home (files (handleHook en home we (Parsed ev) fs0)) s =
     (if isQuestionPrefix (Some p) \<and> we (utf8_text (getQuestionPath home (sessionOf ev))) = None
         \<and> utf8_text (getQuestionPath home s) = utf8_text (getQuestionPath home (sessionOf ev))
      then Some (utf8_text (replace_empty False question_strip_re p))
      else questionFlag home fs0 s)"
  using assms
  by (auto simp add: handleHook_def Let_def userPromptSubmit_def questionBranch_def commitBranch_def
      questionFlag_def createMarkerFile_def catchBlock_def split: option.splits)

lemma prompt_commit_flag:
  assumes "hook_event_name ev = Some (str ''UserPromptSubmit'')" and "prompt ev = Some p"
  shows "commitFlag home (files (handleHook en home we (Parsed ev) fs0)) s =
     (if isCommitPrefix (Some p) \<and> we (utf8_text (getCommitPath home (sessionOf ev))) = None
         \<and> utf8_text (getCommitPath home s) = utf8_text (getCommitPath home (sessionOf ev))
      then Some (utf8_text (replace_empty True commit_strip_re p))
      else commitFlag home fs0 s)"
  using assms prefixes_exclusive [of "Some p"]
  by (auto simp add: handleHook_def Let_def userPromptSubmit_def questionBranch_def commitBranch_def
      commitFlag_def createMarkerFile_def catchBlock_def split: option.splits)

lemma prompt_undefined_flags:
  assumes "hook_event_name ev = Some (str ''UserPromptSubmit'')" and "prompt ev = None"
  shows "questionFlag home (files (handleHook en home we (Parsed ev) fs0)) s = questionFlag home fs0 s"
    and "commitFlag home (files (handleHook en home we (Parsed ev) fs0)) s = commitFlag home fs0 s"
  using assms
  by (simp_all add: handleHook_def Let_def userPromptSubmit_def questionBranch_def commitBranch_def
      questionFlag_def commitFlag_def)

lemma prompt_outcome:
  assumes "hook_event_name ev = Some (str ''UserPromptSubmit'')"
  shows "(isQuestionPrefix (prompt ev) \<longrightarrow> we (utf8_text (getQuestionPath home (sessionOf ev))) = None)
       \<and> (isCommitPrefix (prompt ev) \<longrightarrow> we (utf8_text (getCommitPath home (sessionOf ev))) = None)
     \<Longrightarrow> emitted (handleHook en home we (Parsed ev) fs0) =
           [(Stdout, if isQuestionPrefix (prompt ev) then AdditionalContext question_context else EmptyObject)]
         \<and> exit_code (handleHook en home we (Parsed ev) fs0) = 0"
    and "exit_code (handleHook en home we (Parsed ev) fs0) \<noteq> 2
         \<and> map fst (emitted (handleHook en home we (Parsed ev) fs0)) = [Stdout]"
    and "isQuestionPrefix (prompt ev)
         \<Longrightarrow> we (utf8_text (getQuestionPath home (sessionOf ev))) = Some message
         \<Longrightarrow> emitted (handleHook en home we (Parsed ev) fs0)
               = [(Stdout, ErrorBody (str ''Hook handler error: '' @ message))]
             \<and> exit_code (handleHook en home we (Parsed ev) fs0) = 1"
    and "isCommitPrefix (prompt ev)
         \<Longrightarrow> we (utf8_text (getCommitPath home (sessionOf ev))) = Some message
         \<Longrightarrow> emitted (handleHook en home we (Parsed ev) fs0)
               = [(Stdout, ErrorBody (str ''Hook handler error: '' @ message))]
             \<and> exit_code (handleHook en home we (Parsed ev) fs0) = 1"
  using assms prefixes_exclusive [of "prompt ev"]
  by (cases "prompt ev";
      auto simp add: handleHook_def Let_def userPromptSubmit_def questionBranch_def commitBranch_def
        createMarkerFile_def catchBlock_def split: option.splits)+

lemma example_units [simp]:
  "hook_event_name (promptEventUnits s p) = Some (str ''UserPromptSubmit'')"
  "prompt (promptEventUnits s p) = Some p"
  "prompt (promptEvent s t) = Some (str t)"
  "sessionOf (promptEventUnits ''s1'' p) = str ''s1''"
  "sessionOf (promptEvent ''a/b'' t) = str ''a/b''"
  by (simp_all add: promptEventUnits_def promptEvent_def sessionOf_def str_def)

lemma example_write_fails:
  "onlyStateDirExists example_home (utf8_text (getQuestionPath example_home (str ''a/b'')))
     = Some (str ''ENOENT: no such file or directory'')"
  "onlyStateDirExists example_home (utf8_text (getCommitPath example_home (str ''a/b'')))
     = Some (str ''ENOENT: no such file or directory'')"
  by (simp_all add: onlyStateDirExists_def getQuestionPath_def getCommitPath_def getStateDir_def
      path_join_def normalize_def normalizeString_def step_def str_def example_home_def
      isHighSurrogate_def isLowSurrogate_def Let_def)

text \<open>
  C4, as the specification states it, fails in two ways. With the session id \<open>a/b\<close> on a
  machine whose state directory has no subdirectory, the question prompt \<open>Q: hi\<close> is
  recognized but the marker file cannot be written: no flag is set and the exit code is 1.
  And the stored text of the question prompt whose residual is the lone surrogate U+D800
  is U+FFFD.
\<close>

theorem question_flag_lost_or_altered:
  "isQuestionPrefix (Some (str ''Q: hi''))
   \<and> questionFlag example_home
        (files (handleHook False example_home (onlyStateDirExists example_home)
           (Parsed (promptEvent ''a/b'' ''Q: hi'')) Map.empty)) (str ''a/b'') = None
   \<and> exit_code (handleHook False example_home (onlyStateDirExists example_home)
           (Parsed (promptEvent ''a/b'' ''Q: hi'')) Map.empty) = 1
   \<and> isQuestionPrefix (Some (str ''Q: '' @ [0xD800]))
   \<and> replace_empty False question_strip_re (str ''Q: '' @ [0xD800]) = [0xD800]
   \<and> questionFlag example_home
        (files (handleHook False example_home everyWriteSucceeds
           (Parsed (promptEventUnits ''s1'' (str ''Q: '' @ [0xD800]))) Map.empty)) (str ''s1'')
      = Some [0xFFFD]"
proof -
  have q: "isQuestionPrefix (Some (str ''Q: hi''))"
    by (simp add: isQuestionPrefix_iff str_def isSpace_def)
  have q': "isQuestionPrefix (Some (str ''Q: '' @ [0xD800]))"
    by (simp add: isQuestionPrefix_iff str_def isSpace_def)
  have r: "replace_empty False question_strip_re (str ''Q: '' @ [0xD800]) = [0xD800]"
    by (simp add: question_strip_re_def replace_empty_Bol lit_def str_def isSpace_def)
  have u: "utf8_text [0xD800] = [0xFFFD]"
    by (simp add: isHighSurrogate_def)
  have lost: "questionFlag example_home
        (files (handleHook False example_home (onlyStateDirExists example_home)
           (Parsed (promptEvent ''a/b'' ''Q: hi'')) Map.empty)) (str ''a/b'') = None"
    using prompt_question_flag [where ev = "promptEvent ''a/b'' ''Q: hi''" and p = "str ''Q: hi''"
        and home = example_home and en = False and we = "onlyStateDirExists example_home"
        and ?fs0.0 = Map.empty and s = "str ''a/b''"]
    by (simp add: example_write_fails questionFlag_def)
  have fault: "exit_code (handleHook False example_home (onlyStateDirExists example_home)
           (Parsed (promptEvent ''a/b'' ''Q: hi'')) Map.empty) = 1"
    using prompt_outcome(3) [where ev = "promptEvent ''a/b'' ''Q: hi''" and home = example_home
        and en = False and we = "onlyStateDirExists example_home" and ?fs0.0 = Map.empty] q
    by (simp add: example_write_fails)
  have altered: "questionFlag example_home
        (files (handleHook False example_home everyWriteSucceeds
           (Parsed (promptEventUnits ''s1'' (str ''Q: '' @ [0xD800]))) Map.empty)) (str ''s1'')
      = Some [0xFFFD]"
    using prompt_question_flag [where ev = "promptEventUnits ''s1'' (str ''Q: '' @ [0xD800])"
        and p = "str ''Q: '' @ [0xD800]" and home = example_home and en = False
        and we = everyWriteSucceeds and ?fs0.0 = Map.empty and s = "str ''s1''"] q' r u
    by (simp add: everyWriteSucceeds_def)
  from q q' r lost fault altered show ?thesis by blast
qed

text \<open>
  C4, amended. The question recognizer accepts exactly the prompts that begin with \<open>Q:\<close>
  (in this case) followed by a whitespace character. For a prompt-submitted event with
  such a prompt, written as the marker, its run of whitespace and the residual, in a
  session whose question marker file can be written, the question flag of the session
  afterwards holds the residual as the file system stores it; that is the residual
  itself when it has no lone surrogate.
\<close>

theorem question_prompt_sets_flag_to_residual:
  "(isQuestionPrefix (Some p) \<longleftrightarrow> (\<exists>w r. p = str ''Q:'' @ w # r \<and> isSpace w))
   \<and> (hook_event_name ev = Some (str ''UserPromptSubmit'')
        \<and> prompt ev = Some (str ''Q:'' @ ws @ residual)
        \<and> ws \<noteq> [] \<and> list_all isSpace ws \<and> (residual = [] \<or> \<not> isSpace (hd residual))
        \<and> we (utf8_text (getQuestionPath home (sessionOf ev))) = None
      \<longrightarrow> isQuestionPrefix (prompt ev)
          \<and> questionFlag home (files (handleHook en home we (Parsed ev) fs0)) (sessionOf ev)
              = Some (utf8_text residual)
          \<and> (isWellFormed residual
              \<longrightarrow> questionFlag home (files (handleHook en home we (Parsed ev) fs0)) (sessionOf ev)
                  = Some residual))"
proof (intro conjI impI)
  show "isQuestionPrefix (Some p) \<longleftrightarrow> (\<exists>w r. p = str ''Q:'' @ w # r \<and> isSpace w)"
    by (rule isQuestionPrefix_iff)
next
  assume a: "hook_event_name ev = Some (str ''UserPromptSubmit'')
        \<and> prompt ev = Some (str ''Q:'' @ ws @ residual)
        \<and> ws \<noteq> [] \<and> list_all isSpace ws \<and> (residual = [] \<or> \<not> isSpace (hd residual))
        \<and> we (utf8_text (getQuestionPath home (sessionOf ev))) = None"
  then obtain w ws' where ws: "ws = w # ws'" and w: "isSpace w" and ws': "list_all isSpace ws'"
    by (cases ws) auto
  from a have p: "prompt ev = Some (str ''Q:'' @ w # (ws' @ residual))" by (simp add: ws)
  from w show q: "isQuestionPrefix (prompt ev)" unfolding p isQuestionPrefix_iff by blast
  from a ws' have "dropWhile isSpace (ws' @ residual) = residual" by (intro dropWhile_run) simp_all
  with a p q w
  show stored: "questionFlag home (files (handleHook en home we (Parsed ev) fs0)) (sessionOf ev)
      = Some (utf8_text residual)"
    by (simp add: prompt_question_flag [of ev "str ''Q:'' @ w # (ws' @ residual)"] question_strip)
  assume "isWellFormed residual"
  with stored show "questionFlag home (files (handleHook en home we (Parsed ev) fs0)) (sessionOf ev)
      = Some residual"
    by (simp add: isWellFormed_def)
qed

theorem question_prompt_sets_flag_to_residual_witness:
  "isQuestionPrefix (Some (str ''Q: what is x?''))
   \<and> \<not> isQuestionPrefix (Some (str ''q: what is x?''))
   \<and> \<not> isQuestionPrefix (Some (str ''Q:what is x?''))
   \<and> questionFlag example_home
        (files (handleHook False example_home everyWriteSucceeds
           (Parsed (promptEvent ''s1'' ''Q: what is x?'')) Map.empty))
        (str ''s1'') = Some (str ''what is x?'')"
proof -
  have a: "hook_event_name (promptEvent ''s1'' ''Q: what is x?'') = Some (str ''UserPromptSubmit'')
      \<and> prompt (promptEvent ''s1'' ''Q: what is x?'') = Some (str ''Q:'' @ [32] @ str ''what is x?'')
      \<and> [32] \<noteq> [] \<and> list_all isSpace [32]
      \<and> (str ''what is x?'' = [] \<or> \<not> isSpace (hd (str ''what is x?'')))
      \<and> everyWriteSucceeds (utf8_text (getQuestionPath example_home
            (sessionOf (promptEvent ''s1'' ''Q: what is x?'')))) = None"
    by (simp add: promptEvent_def str_def isSpace_def everyWriteSucceeds_def)
  have wf: "isWellFormed (str ''what is x?'')"
    by (simp add: isWellFormed_def str_def isHighSurrogate_def isLowSurrogate_def)
  have b: "\<exists>w r. str ''Q: what is x?'' = str ''Q:'' @ w # r \<and> isSpace w"
    by (simp add: str_def isSpace_def)
  have c: "\<not> (\<exists>w r. str ''q: what is x?'' = str ''Q:'' @ w # r \<and> isSpace w)"
    by (simp add: str_def)
  have d: "\<not> (\<exists>w r. str ''Q:what is x?'' = str ''Q:'' @ w # r \<and> isSpace w)"
    by (simp add: str_def isSpace_def)
  have 1: "isQuestionPrefix (Some (str ''Q: what is x?''))"
    using question_prompt_sets_flag_to_residual [where p = "str ''Q: what is x?''", THEN conjunct1] b
    by simp
  have 2: "\<not> isQuestionPrefix (Some (str ''q: what is x?''))"
    using question_prompt_sets_flag_to_residual [where p = "str ''q: what is x?''", THEN conjunct1] c
    by simp
  have 3: "\<not> isQuestionPrefix (Some (str ''Q:what is x?''))"
    using question_prompt_sets_flag_to_residual [where p = "str ''Q:what is x?''", THEN conjunct1] d
    by simp
  have 4: "questionFlag example_home
        (files (handleHook False example_home everyWriteSucceeds
           (Parsed (promptEvent ''s1'' ''Q: what is x?'')) Map.empty))
        (str ''s1'') = Some (str ''what is x?'')"
    using question_prompt_sets_flag_to_residual
      [where ev = "promptEvent ''s1'' ''Q: what is x?''"
        and ws = "[32]" and residual = "str ''what is x?''" and home = example_home
        and we = everyWriteSucceeds and en = False and ?fs0.0 = Map.empty, THEN conjunct2] a wf
    by (simp add: isWellFormed_def)
  from 1 2 3 4 show ?thesis by blast
qed

text \<open>
  C8, as the specification states it, fails in the same two ways as C4: the marker file
  of the session \<open>a/b\<close> cannot be written, and a lone surrogate is stored as U+FFFD.
\<close>

theorem commit_flag_lost_or_altered:
  "isCommitPrefix (Some (str ''commit! now''))
   \<and> commitFlag example_home
        (files (handleHook False example_home (onlyStateDirExists example_home)
           (Parsed (promptEvent ''a/b'' ''commit! now'')) Map.empty)) (str ''a/b'') = None
   \<and> exit_code (handleHook False example_home (onlyStateDirExists example_home)
           (Parsed (promptEvent ''a/b'' ''commit! now'')) Map.empty) = 1
   \<and> isCommitPrefix (Some (str ''commit! '' @ [0xD800]))
   \<and> replace_empty True commit_strip_re (str ''commit! '' @ [0xD800]) = [0xD800]
   \<and> commitFlag example_home
        (files (handleHook False example_home everyWriteSucceeds
           (Parsed (promptEventUnits ''s1'' (str ''commit! '' @ [0xD800]))) Map.empty)) (str ''s1'')
      = Some [0xFFFD]"
proof -
  have c: "isCommitPrefix (Some (str ''commit! now''))"
    by (simp add: isCommitPrefix_def ToString_def commit_re_def test_Bol lit_def str_def
        canonicalize_def isSpace_def)
  have c': "isCommitPrefix (Some (str ''commit! '' @ [0xD800]))"
    by (simp add: isCommitPrefix_def ToString_def commit_re_def test_Bol lit_def str_def
        canonicalize_def isSpace_def)
  have r: "replace_empty True commit_strip_re (str ''commit! '' @ [0xD800]) = [0xD800]"
    by (simp add: commit_strip_re_def replace_empty_Bol lit_def str_def isSpace_def canonicalize_def)
  have u: "utf8_text [0xD800] = [0xFFFD]"
    by (simp add: isHighSurrogate_def)
  have lost: "commitFlag example_home
        (files (handleHook False example_home (onlyStateDirExists example_home)
           (Parsed (promptEvent ''a/b'' ''commit! now'')) Map.empty)) (str ''a/b'') = None"
    using prompt_commit_flag [where ev = "promptEvent ''a/b'' ''commit! now''" and p = "str ''commit! now''"
        and home = example_home and en = False and we = "onlyStateDirExists example_home"
        and ?fs0.0 = Map.empty and s = "str ''a/b''"]
    by (simp add: example_write_fails commitFlag_def)
  have fault: "exit_code (handleHook False example_home (onlyStateDirExists example_home)
           (Parsed (promptEvent ''a/b'' ''commit! now'')) Map.empty) = 1"
    using prompt_outcome(4) [where ev = "promptEvent ''a/b'' ''commit! now''" and home = example_home
        and en = False and we = "onlyStateDirExists example_home" and ?fs0.0 = Map.empty] c
    by (simp add: example_write_fails)
  have altered: "commitFlag example_home
        (files (handleHook False example_home everyWriteSucceeds
           (Parsed (promptEventUnits ''s1'' (str ''commit! '' @ [0xD800]))) Map.empty)) (str ''s1'')
      = Some [0xFFFD]"
    using prompt_commit_flag [where ev = "promptEventUnits ''s1'' (str ''commit! '' @ [0xD800])"
        and p = "str ''commit! '' @ [0xD800]" and home = example_home and en = False
        and we = everyWriteSucceeds and ?fs0.0 = Map.empty and s = "str ''s1''"] c' r u
    by (simp add: everyWriteSucceeds_def)
  from c c' r lost fault altered show ?thesis by blast
qed

text \<open>
  C8, amended. For a prompt-submitted event whose prompt begins with \<open>commit!\<close> in any mix
  of upper and lower case, followed by the end of the prompt or by whitespace, in a
  session whose commit marker file can be written, the commit-approval flag of the session
  afterwards holds the residual (the prompt without the marker and the whitespace after
  it) as the file system stores it; that is the residual itself when it has no lone
  surrogate.
\<close>

theorem commit_prompt_sets_flag_to_residual:
  assumes "hook_event_name ev = Some (str ''UserPromptSubmit'')"
    and "prompt ev = Some (marker @ ws @ residual)"
    and "map canonicalize marker = map canonicalize (str ''commit!'')"
    and "list_all isSpace ws"
    and "residual = [] \<or> \<not> isSpace (hd residual)"
    and "ws \<noteq> [] \<or> residual = []"
    and "we (utf8_text (getCommitPath home (sessionOf ev))) = None"
  shows "isCommitPrefix (prompt ev)
       \<and> commitFlag home (files (handleHook en home we (Parsed ev) fs0)) (sessionOf ev)
           = Some (utf8_text residual)
       \<and> (isWellFormed residual
           \<longrightarrow> commitFlag home (files (handleHook en home we (Parsed ev) fs0)) (sessionOf ev)
               = Some residual)"
proof -
  from assms(4,6) have "ws @ residual = [] \<or> isSpace (hd (ws @ residual))"
    by (cases ws) auto
  with assms(3) have c: "isCommitPrefix (Some (marker @ ws @ residual))"
    unfolding isCommitPrefix_iff by blast
  from assms(4,5) have "dropWhile isSpace (ws @ residual) = residual" by (rule dropWhile_run)
  with assms(1,2,3,7) c show ?thesis
    by (simp add: prompt_commit_flag [of ev "marker @ ws @ residual"] commit_strip isWellFormed_def)
qed

theorem commit_prompt_sets_flag_to_residual_witness:
  "isCommitPrefix (Some (str ''Commit! fix bug''))
   \<and> commitFlag example_home
        (files (handleHook False example_home everyWriteSucceeds
           (Parsed (promptEvent ''s2'' ''Commit! fix bug'')) Map.empty))
        (str ''s2'') = Some (str ''fix bug'')"
proof -
  have e: "hook_event_name (promptEvent ''s2'' ''Commit! fix bug'') = Some (str ''UserPromptSubmit'')"
    by simp
  have p: "prompt (promptEvent ''s2'' ''Commit! fix bug'') = Some (str ''Commit!'' @ [32] @ str ''fix bug'')"
    by (simp add: str_def)
  have m: "map canonicalize (str ''Commit!'') = map canonicalize (str ''commit!'')"
    by (simp add: str_def canonicalize_def)
  have w: "list_all isSpace [32]" by (simp add: isSpace_def)
  have r: "str ''fix bug'' = [] \<or> \<not> isSpace (hd (str ''fix bug''))" by (simp add: str_def isSpace_def)
  have n: "[32] \<noteq> [] \<or> str ''fix bug'' = []" by simp
  have o: "everyWriteSucceeds (utf8_text (getCommitPath example_home
      (sessionOf (promptEvent ''s2'' ''Commit! fix bug'')))) = None"
    by (simp add: everyWriteSucceeds_def)
  have wf: "isWellFormed (str ''fix bug'')"
    by (simp add: isWellFormed_def str_def isHighSurrogate_def isLowSurrogate_def)
  from commit_prompt_sets_flag_to_residual [where we = everyWriteSucceeds and home = example_home
      and en = False and ?fs0.0 = Map.empty, OF e p m w r n o] wf
  show ?thesis by (simp add: isWellFormed_def)
qed

text \<open>
  C9. A prompt-submitted event never blocks: the exit code is never 2 and the one
  response goes to standard output; the exit code is 0 unless a marker file that the
  prompt asks for cannot be written. When the prompt matches neither convention, the
  exit code is 0, the response is the neutral \<open>{}\<close> and no flag of any session is
  created or altered.
\<close>

theorem unmarked_prompt_changes_no_flag:
  assumes "hook_event_name ev = Some (str ''UserPromptSubmit'')"
  shows "exit_code (handleHook en home we (Parsed ev) fs0) \<noteq> 2
       \<and> map fst (emitted (handleHook en home we (Parsed ev) fs0)) = [Stdout]
       \<and> (we (utf8_text (getQuestionPath home (sessionOf ev))) = None
            \<and> we (utf8_text (getCommitPath home (sessionOf ev))) = None
            \<longrightarrow> exit_code (handleHook en home we (Parsed ev) fs0) = 0
                \<and> (emitted (handleHook en home we (Parsed ev) fs0) = [(Stdout, EmptyObject)]
                     \<or> emitted (handleHook en home we (Parsed ev) fs0)
                         = [(Stdout, AdditionalContext question_context)]))
       \<and> (\<not> isQuestionPrefix (prompt ev) \<and> \<not> isCommitPrefix (prompt ev)
            \<longrightarrow> exit_code (handleHook en home we (Parsed ev) fs0) = 0
                \<and> emitted (handleHook en home we (Parsed ev) fs0) = [(Stdout, EmptyObject)]
                \<and> (\<forall>s. questionFlag home (files (handleHook en home we (Parsed ev) fs0)) s
                           = questionFlag home fs0 s
                       \<and> commitFlag home (files (handleHook en home we (Parsed ev) fs0)) s
                           = commitFlag home fs0 s))"
proof (cases "prompt ev")
  case None
  with assms prompt_outcome(1,2) [OF assms, where we = we and home = home and en = en and ?fs0.0 = fs0]
  show ?thesis
    by (simp add: prompt_undefined_flags)
next
  case (Some p)
  with assms prompt_outcome(1,2) [OF assms, where we = we and home = home and en = en and ?fs0.0 = fs0]
  show ?thesis
    by (auto simp add: prompt_question_flag [of ev p] prompt_commit_flag [of ev p])
qed

theorem unmarked_prompt_changes_no_flag_witness:
  "exit_code (handleHook True example_home (onlyStateDirExists example_home)
       (Parsed (promptEvent ''s1'' ''fix the bug''))
       [utf8_text (getQuestionPath example_home (str ''s1'')) \<mapsto> str ''what is x?'']) = 0
   \<and> emitted (handleHook True example_home (onlyStateDirExists example_home)
       (Parsed (promptEvent ''s1'' ''fix the bug''))
       [utf8_text (getQuestionPath example_home (str ''s1'')) \<mapsto> str ''what is x?'']) = [(Stdout, EmptyObject)]
   \<and> questionFlag example_home
        (files (handleHook True example_home (onlyStateDirExists example_home)
           (Parsed (promptEvent ''s1'' ''fix the bug''))
           [utf8_text (getQuestionPath example_home (str ''s1'')) \<mapsto> str ''what is x?''])) (str ''s1'')
      = Some (str ''what is x?'')
   \<and> commitFlag example_home
        (files (handleHook True example_home (onlyStateDirExists example_home)
           (Parsed (promptEvent ''s1'' ''fix the bug''))
           [utf8_text (getQuestionPath example_home (str ''s1'')) \<mapsto> str ''what is x?''])) (str ''s1'')
      = None
   \<and> exit_code (handleHook True example_home (onlyStateDirExists example_home)
       (Parsed (promptEvent ''a/b'' ''Q: hi'')) Map.empty) \<noteq> 2
   \<and> map fst (emitted (handleHook True example_home (onlyStateDirExists example_home)
       (Parsed (promptEvent ''a/b'' ''Q: hi'')) Map.empty)) = [Stdout]"
proof -
  have e1: "hook_event_name (promptEvent ''s1'' ''fix the bug'') = Some (str ''UserPromptSubmit'')"
    by simp
  have e2: "hook_event_name (promptEvent ''a/b'' ''Q: hi'') = Some (str ''UserPromptSubmit'')"
    by simp
  have q: "\<not> isQuestionPrefix (prompt (promptEvent ''s1'' ''fix the bug''))"
    by (simp add: isQuestionPrefix_iff str_def)
  have c: "\<not> isCommitPrefix (prompt (promptEvent ''s1'' ''fix the bug''))"
    by (simp add: isCommitPrefix_def ToString_def commit_re_def test_Bol lit_def str_def
        canonicalize_def)
  from unmarked_prompt_changes_no_flag [OF e1, where en = True and home = example_home
      and we = "onlyStateDirExists example_home"
      and ?fs0.0 = "[utf8_text (getQuestionPath example_home (str ''s1'')) \<mapsto> str ''what is x?'']"]
    unmarked_prompt_changes_no_flag [OF e2, where en = True and home = example_home
      and we = "onlyStateDirExists example_home" and ?fs0.0 = Map.empty]
    q c
  show ?thesis by (simp add: questionFlag_def commitFlag_def)
qed

text \<open>
  C7, as the specification states it, asks for a prompt that matches both conventions.
  There is none: the question pattern needs \<open>Q\<close> as the first code unit, the commit
  pattern \<open>c\<close> or \<open>C\<close>.
\<close>

theorem no_prompt_matches_both_conventions:
  "\<not> (\<exists>p. isQuestionPrefix p \<and> isCommitPrefix p)"
  using prefixes_exclusive by blast

text \<open>
  C7, amended. No prompt matches both conventions. The two recognizers are evaluated
  independently: a prompt-submitted event leaves the question flag as it was when the
  question recognizer does not match, and leaves the commit-approval flag as it was when
  the commit recognizer does not match; a recognizer that matches sets its own flag to
  the stored residual of its own pattern when the marker file can be written. So one
  run leaves at least one of the two flags as it was.
\<close>

theorem recognizers_independent_and_exclusive:
  assumes "hook_event_name ev = Some (str ''UserPromptSubmit'')" and "prompt ev = Some p"
  shows "\<not> (isQuestionPrefix (prompt ev) \<and> isCommitPrefix (prompt ev))
       \<and> questionFlag home (files (handleHook en home we (Parsed ev) fs0)) (sessionOf ev)
           = (if isQuestionPrefix (prompt ev)
                 \<and> we (utf8_text (getQuestionPath home (sessionOf ev))) = None
              then Some (utf8_text (replace_empty False question_strip_re p))
              else questionFlag home fs0 (sessionOf ev))
       \<and> commitFlag home (files (handleHook en home we (Parsed ev) fs0)) (sessionOf ev)
           = (if isCommitPrefix (prompt ev)
                 \<and> we (utf8_text (getCommitPath home (sessionOf ev))) = None
              then Some (utf8_text (replace_empty True commit_strip_re p))
              else commitFlag home fs0 (sessionOf ev))
       \<and> (questionFlag home (files (handleHook en home we (Parsed ev) fs0)) (sessionOf ev)
             = questionFlag home fs0 (sessionOf ev)
            \<or> commitFlag home (files (handleHook en home we (Parsed ev) fs0)) (sessionOf ev)
             = commitFlag home fs0 (sessionOf ev))"
  using assms prefixes_exclusive [of "Some p"]
  by (auto simp add: prompt_question_flag [of ev p] prompt_commit_flag [of ev p])

theorem recognizers_independent_and_exclusive_witness:
  "\<not> (isQuestionPrefix (Some (str ''Q: commit! now'')) \<and> isCommitPrefix (Some (str ''Q: commit! now'')))
   \<and> questionFlag example_home
        (files (handleHook False example_home everyWriteSucceeds
           (Parsed (promptEvent ''s1'' ''Q: commit! now'')) Map.empty))
        (str ''s1'') = Some (str ''commit! now'')
   \<and> commitFlag example_home
        (files (handleHook False example_home everyWriteSucceeds
           (Parsed (promptEvent ''s1'' ''Q: commit! now'')) Map.empty))
        (str ''s1'') = None"
proof -
  have e: "hook_event_name (promptEvent ''s1'' ''Q: commit! now'') = Some (str ''UserPromptSubmit'')"
    by simp
  have p: "prompt (promptEvent ''s1'' ''Q: commit! now'') = Some (str ''Q: commit! now'')"
    by simp
  have q: "isQuestionPrefix (Some (str ''Q: commit! now''))"
    by (simp add: isQuestionPrefix_iff str_def isSpace_def)
  have r: "utf8_text (replace_empty False question_strip_re (str ''Q: commit! now'')) = str ''commit! now''"
    by (simp add: question_strip_re_def replace_empty_Bol lit_def str_def isSpace_def
        isHighSurrogate_def isLowSurrogate_def)
  from recognizers_independent_and_exclusive [OF e p, where home = example_home and en = False
      and we = everyWriteSucceeds and ?fs0.0 = Map.empty] q
  show ?thesis by (simp add: r commitFlag_def everyWriteSucceeds_def)
qed

subsection \<open>The git-commit recognizer\<close>

text \<open>
  C6, as the specification states it, fails when the flags between \<open>git\<close> and \<open>commit\<close>
  run over more than one line (here with a backslash and a line feed, the shell's line
  continuation): \<open>.\<close> does not match a line terminator.
\<close>

theorem multi_line_flags_not_recognized:
  "\<not> isGitCommit (str ''git -c a=b '' @ [92, 10] @ str '' -c c=d commit -m x'')"
  by (simp add: isGitCommit_def gitCommitPatterns_def test_def lit_def str_def isSpace_def isWordAt_def
        next_unit_def isWordChar_def isLineTerminator_def)

text \<open>
  C6, amended. The recognizer returns true for every command \<open>git\<close>, whitespace,
  \<open>commit\<close>, and for every command \<open>git\<close>, whitespace, flags, whitespace, \<open>commit\<close> whose
  flags contain no line terminator, when \<open>commit\<close> ends the command or is followed by a
  code unit that is not a word character.
\<close>

theorem git_commit_recognized_with_one_line_flags:
  "(ws \<noteq> [] \<and> list_all isSpace ws \<and> (rest = [] \<or> \<not> isWordChar (hd rest))
      \<longrightarrow> isGitCommit (str ''git'' @ ws @ str ''commit'' @ rest))
   \<and> (ws1 \<noteq> [] \<and> list_all isSpace ws1 \<and> list_all (\<lambda>c. \<not> isLineTerminator c) flags
        \<and> ws2 \<noteq> [] \<and> list_all isSpace ws2 \<and> (rest = [] \<or> \<not> isWordChar (hd rest))
      \<longrightarrow> isGitCommit (str ''git'' @ ws1 @ flags @ ws2 @ str ''commit'' @ rest))"
  using git_bare [of ws rest] git_flags [of ws1 flags ws2 rest] by blast

theorem git_commit_recognized_with_one_line_flags_witness:
  "isGitCommit (str ''git commit -m x'') \<and> isGitCommit (str ''git -c key=value commit -m x'')"
proof -
  have a: "[32] \<noteq> [] \<and> list_all isSpace [32]
      \<and> (str '' -m x'' = [] \<or> \<not> isWordChar (hd (str '' -m x'')))"
    by (simp add: isSpace_def isWordChar_def str_def)
  have b: "[32] \<noteq> [] \<and> list_all isSpace [32]
      \<and> list_all (\<lambda>c. \<not> isLineTerminator c) (str ''-c key=value'')
      \<and> [32] \<noteq> [] \<and> list_all isSpace [32]
      \<and> (str '' -m x'' = [] \<or> \<not> isWordChar (hd (str '' -m x'')))"
    by (simp add: isSpace_def isWordChar_def isLineTerminator_def str_def)
  have c: "str ''git'' @ [32] @ str ''commit'' @ str '' -m x'' = str ''git commit -m x''"
    by (simp add: str_def)
  have d: "str ''git'' @ [32] @ str ''-c key=value'' @ [32] @ str ''commit'' @ str '' -m x''
      = str ''git -c key=value commit -m x''"
    by (simp add: str_def)
  from git_commit_recognized_with_one_line_flags
      [of "[32]" "str '' -m x''" "[32]" "str ''-c key=value''" "[32]"] a b
  have "isGitCommit (str ''git'' @ [32] @ str ''commit'' @ str '' -m x'')
      \<and> isGitCommit (str ''git'' @ [32] @ str ''-c key=value'' @ [32] @ str ''commit'' @ str '' -m x'')"
    by blast
  then show ?thesis unfolding c d .
qed

subsection \<open>Responses, channels and exit codes\<close>

text \<open>
  Every run writes exactly one response. Exit code 0 goes with a response that is not an
  error on standard output, exit code 2 with an error body on standard error, and exit
  code 1 with an error body on standard output.
\<close>

lemma every_run_emits_one_response:
  "length (emitted (handleHook en home we input fs0)) = 1
   \<and> (exit_code (handleHook en home we input fs0) = 0 \<or> exit_code (handleHook en home we input fs0) = 1
        \<or> exit_code (handleHook en home we input fs0) = 2)
   \<and> (exit_code (handleHook en home we input fs0) = 0
        \<longrightarrow> emitted (handleHook en home we input fs0) = [(Stdout, EmptyObject)]
          \<or> emitted (handleHook en home we input fs0) = [(Stdout, AdditionalContext question_context)])
   \<and> (exit_code (handleHook en home we input fs0) = 2
        \<longrightarrow> (\<exists>message. emitted (handleHook en home we input fs0) = [(Stderr, ErrorBody message)]))
   \<and> (exit_code (handleHook en home we input fs0) = 1
        \<longrightarrow> (\<exists>message. emitted (handleHook en home we input fs0) = [(Stdout, ErrorBody message)]))"
proof (cases input)
  case (Throws message)
  then show ?thesis by (simp add: handleHook_def catchBlock_def)
next
  case (Parsed ev)
  show ?thesis
  proof (cases "hook_event_name ev = Some (str ''UserPromptSubmit'')")
    case True
    then show ?thesis unfolding Parsed
      by (cases "prompt ev")
        (auto simp add: handleHook_def Let_def userPromptSubmit_def questionBranch_def commitBranch_def
          createMarkerFile_def catchBlock_def split: option.splits)
  next
    case False
    then show ?thesis unfolding Parsed
      by (simp add: handleHook_def Let_def preToolUse_def split: option.splits list.splits)
  qed
qed

text \<open>
  C5 at input that cannot be parsed: the \<open>catch\<close> block reports the error body with
  \<open>console.log\<close>, so it goes to standard output, and the exit code is 1.
\<close>

theorem malformed_input_error_goes_to_stdout:
  "emitted (handleHook en home we (Throws message) fs0)
     = [(Stdout, ErrorBody (str ''Hook handler error: '' @ message))]
   \<and> exit_code (handleHook en home we (Throws message) fs0) = 1"
  by (simp add: handleHook_def catchBlock_def)

end
